theory Spec2Isabelle
  imports Main
begin

section \<open>Soulbound-token system: data model\<close>

text \<open>
  The four contracts (IssuerRegistry, SBTTemplate, SBTSession, SBTToken) are embedded as
  records of their storage variables and as functions from the storage before a call to
  either an error (the call reverts) or the storage after it.

  Solidity \<open>address\<close>, \<open>bytes32\<close> and \<open>uint256\<close> values are represented by their numeric
  value; \<open>0\<close> is \<open>address(0)\<close> and \<open>bytes32(0)\<close>. Solidity 0.8 arithmetic is checked: an
  increment or an addition that would pass \<open>2^256 - 1\<close> reverts, which the model writes out
  as the error \<open>Panic_overflow\<close>. A Solidity \<open>mapping\<close> is a total function whose default
  is the zero value of the struct.
\<close>

type_synonym address = nat
type_synonym bytes32 = nat
type_synonym uint256 = nat

definition uint256_max :: nat where
  "uint256_max = 2 ^ 256 - 1"

datatype error =
    OwnableUnauthorizedAccount
  | OwnableInvalidOwner
  | EnforcedPause
  | ExpectedPause
  | Panic_overflow
  | Reg_InvalidIssuerAddress
  | Reg_NameCannotBeEmpty
  | Reg_IssuerAlreadyExists
  | Reg_IssuerNotFound
  | Reg_CannotRemoveOwner
  | Tpl_NotAuthorizedIssuer
  | Tpl_TemplateDoesNotExist
  | Tpl_NotTemplateIssuer
  | Tpl_NameCannotBeEmpty
  | Tpl_DescriptionCannotBeEmpty
  | Tpl_TemplateNotActive
  | Tpl_TemplateAlreadyInactive
  | Tpl_TemplateAlreadyActive
  | Ses_NotAuthorizedIssuer
  | Ses_SessionDoesNotExist
  | Ses_NotSessionIssuer
  | Ses_NotSBTTokenContract
  | Ses_InvalidTokenContractAddress
  | Ses_TemplateNotActive
  | Ses_MaxMintsZero
  | Ses_DurationZero
  | Ses_NotTemplateOwner
  | Ses_SessionIdCollision
  | Ses_SessionAlreadyEnded
  | Tok_NotAuthorizedIssuer
  | Tok_TokenDoesNotExist
  | Tok_TokenRevoked
  | Tok_MintToZeroAddress
  | Tok_TemplateNotActive
  | Tok_AlreadyHasTokenFromTemplate
  | Tok_NotTemplateOwner
  | Tok_SessionNotClaimable
  | Tok_AlreadyHasTokenFromSession
  | Tok_NotSessionOwner
  | Tok_EmptyRecipients
  | Tok_BatchTooLarge
  | Tok_ExceedsSessionMintLimit
  | Tok_NotAuthorizedToRevoke
  | Tok_SoulboundTransfer
  | ERC721InvalidReceiver
  | ERC721InvalidSender

subsection \<open>IssuerRegistry\<close>

record IssuerInfo =
  iss_name :: string
  iss_organization :: string
  iss_authorized :: bool
  iss_addedAt :: uint256

record IssuerRegistry =
  reg_owner :: address
  reg_paused :: bool
  issuers :: "address \<Rightarrow> IssuerInfo"
  issuerAddresses :: "address list"
  isInArray :: "address \<Rightarrow> bool"

definition IssuerInfo_zero :: IssuerInfo where
  "IssuerInfo_zero =
     \<lparr>iss_name = [], iss_organization = [], iss_authorized = False, iss_addedAt = 0\<rparr>"

definition addIssuerInternal ::
  "address \<Rightarrow> string \<Rightarrow> string \<Rightarrow> uint256 \<Rightarrow> IssuerRegistry \<Rightarrow> IssuerRegistry" where
  "addIssuerInternal issuer name organization now r =
     (let r1 = r\<lparr>issuers := (issuers r)(issuer :=
                  \<lparr>iss_name = name, iss_organization = organization,
                   iss_authorized = True, iss_addedAt = now\<rparr>)\<rparr>
      in if \<not> isInArray r1 issuer
         then r1\<lparr>issuerAddresses := issuerAddresses r1 @ [issuer],
                 isInArray := (isInArray r1)(issuer := True)\<rparr>
         else r1)"

text \<open>
  The constructor. \<open>Ownable(_owner)\<close> rejects the zero address and records the owner;
  the body then registers the owner as the first authorized issuer.
\<close>

definition IssuerRegistry_constructor :: "address \<Rightarrow> uint256 \<Rightarrow> error + IssuerRegistry" where
  "IssuerRegistry_constructor owner0 now =
     (if owner0 = 0 then Inl OwnableInvalidOwner
      else Inr (addIssuerInternal owner0 ''System Admin'' ''SBT System'' now
                  \<lparr>reg_owner = owner0, reg_paused = False,
                   issuers = (\<lambda>_. IssuerInfo_zero), issuerAddresses = [],
                   isInArray = (\<lambda>_. False)\<rparr>))"

definition addIssuer ::
  "address \<Rightarrow> uint256 \<Rightarrow> address \<Rightarrow> string \<Rightarrow> string \<Rightarrow> IssuerRegistry
     \<Rightarrow> error + IssuerRegistry" where
  "addIssuer sender now issuer name organization r =
     (if sender \<noteq> reg_owner r then Inl OwnableUnauthorizedAccount
      else if reg_paused r then Inl EnforcedPause
      else if issuer = 0 then Inl Reg_InvalidIssuerAddress
      else if \<not> (length name > 0) then Inl Reg_NameCannotBeEmpty
      else if iss_authorized (issuers r issuer) then Inl Reg_IssuerAlreadyExists
      else Inr (addIssuerInternal issuer name organization now r))"

definition removeIssuer ::
  "address \<Rightarrow> address \<Rightarrow> IssuerRegistry \<Rightarrow> error + IssuerRegistry" where
  "removeIssuer sender issuer r =
     (if sender \<noteq> reg_owner r then Inl OwnableUnauthorizedAccount
      else if reg_paused r then Inl EnforcedPause
      else if issuer = 0 then Inl Reg_InvalidIssuerAddress
      else if \<not> iss_authorized (issuers r issuer) then Inl Reg_IssuerNotFound
      else if \<not> (issuer \<noteq> reg_owner r) then Inl Reg_CannotRemoveOwner
      else Inr (r\<lparr>issuers := (issuers r)(issuer :=
                     (issuers r issuer)\<lparr>iss_authorized := False\<rparr>)\<rparr>))"

definition updateIssuer ::
  "address \<Rightarrow> address \<Rightarrow> string \<Rightarrow> string \<Rightarrow> IssuerRegistry \<Rightarrow> error + IssuerRegistry" where
  "updateIssuer sender issuer name organization r =
     (if sender \<noteq> reg_owner r then Inl OwnableUnauthorizedAccount
      else if reg_paused r then Inl EnforcedPause
      else if issuer = 0 then Inl Reg_InvalidIssuerAddress
      else if \<not> iss_authorized (issuers r issuer) then Inl Reg_IssuerNotFound
      else if \<not> (length name > 0) then Inl Reg_NameCannotBeEmpty
      else Inr (r\<lparr>issuers := (issuers r)(issuer :=
                     (issuers r issuer)\<lparr>iss_name := name, iss_organization := organization\<rparr>)\<rparr>))"

definition isAuthorizedIssuer :: "IssuerRegistry \<Rightarrow> address \<Rightarrow> bool" where
  "isAuthorizedIssuer r issuer = iss_authorized (issuers r issuer)"

text \<open>
  \<open>pause\<close> and \<open>unpause\<close> are \<open>onlyOwner\<close>; the library's \<open>_pause\<close> requires the flag to be
  clear and \<open>_unpause\<close> requires it to be set.
\<close>

definition reg_pause :: "address \<Rightarrow> IssuerRegistry \<Rightarrow> error + IssuerRegistry" where
  "reg_pause sender r =
     (if sender \<noteq> reg_owner r then Inl OwnableUnauthorizedAccount
      else if reg_paused r then Inl EnforcedPause
      else Inr (r\<lparr>reg_paused := True\<rparr>))"

definition reg_unpause :: "address \<Rightarrow> IssuerRegistry \<Rightarrow> error + IssuerRegistry" where
  "reg_unpause sender r =
     (if sender \<noteq> reg_owner r then Inl OwnableUnauthorizedAccount
      else if \<not> reg_paused r then Inl ExpectedPause
      else Inr (r\<lparr>reg_paused := False\<rparr>))"

text \<open>
  \<open>IssuerRegistry\<close> is \<open>Ownable\<close> and so also has the two ownership entry points of that base
  contract: \<open>transferOwnership\<close> (owner only; the new owner is not the zero address) and
  \<open>renounceOwnership\<close> (owner only; the owner becomes the zero address).
\<close>

definition reg_transferOwnership :: "address \<Rightarrow> address \<Rightarrow> IssuerRegistry \<Rightarrow> error + IssuerRegistry" where
  "reg_transferOwnership sender newOwner x =
     (if sender \<noteq> reg_owner x then Inl OwnableUnauthorizedAccount
      else if newOwner = 0 then Inl OwnableInvalidOwner
      else Inr (x\<lparr>reg_owner := newOwner\<rparr>))"

definition reg_renounceOwnership :: "address \<Rightarrow> IssuerRegistry \<Rightarrow> error + IssuerRegistry" where
  "reg_renounceOwnership sender x =
     (if sender \<noteq> reg_owner x then Inl OwnableUnauthorizedAccount
      else Inr (x\<lparr>reg_owner := 0\<rparr>))"

subsection \<open>SBTTemplate\<close>

record Template =
  tpl_templateId :: uint256
  tpl_name :: string
  tpl_description :: string
  tpl_issuer :: address
  tpl_createdAt :: uint256
  tpl_active :: bool

record SBTTemplate =
  tst_owner :: address
  tst_paused :: bool
  templateIdCounter :: uint256
  templates :: "uint256 \<Rightarrow> Template"
  issuerTemplates :: "address \<Rightarrow> uint256 list"

definition Template_zero :: Template where
  "Template_zero =
     \<lparr>tpl_templateId = 0, tpl_name = [], tpl_description = [], tpl_issuer = 0,
      tpl_createdAt = 0, tpl_active = False\<rparr>"

definition SBTTemplate_constructor :: "address \<Rightarrow> SBTTemplate" where
  "SBTTemplate_constructor deployer =
     \<lparr>tst_owner = deployer, tst_paused = False, templateIdCounter = 0,
      templates = (\<lambda>_. Template_zero), issuerTemplates = (\<lambda>_. [])\<rparr>"

definition templateExists :: "SBTTemplate \<Rightarrow> uint256 \<Rightarrow> bool" where
  "templateExists t templateId = (templateId \<le> templateIdCounter t \<and> templateId > 0)"

definition createTemplate ::
  "IssuerRegistry \<Rightarrow> address \<Rightarrow> uint256 \<Rightarrow> string \<Rightarrow> string \<Rightarrow> SBTTemplate
     \<Rightarrow> error + SBTTemplate" where
  "createTemplate reg sender now name description t =
     (if \<not> isAuthorizedIssuer reg sender then Inl Tpl_NotAuthorizedIssuer
      else if tst_paused t then Inl EnforcedPause
      else if \<not> (length name > 0) then Inl Tpl_NameCannotBeEmpty
      else if \<not> (length description > 0) then Inl Tpl_DescriptionCannotBeEmpty
      else if templateIdCounter t \<ge> uint256_max then Inl Panic_overflow
      else
        (let templateId = templateIdCounter t + 1
         in Inr (t\<lparr>templateIdCounter := templateId,
                    templates := (templates t)(templateId :=
                      \<lparr>tpl_templateId = templateId, tpl_name = name,
                       tpl_description = description, tpl_issuer = sender,
                       tpl_createdAt = now, tpl_active = True\<rparr>),
                    issuerTemplates := (issuerTemplates t)(sender :=
                      issuerTemplates t sender @ [templateId])\<rparr>)))"

definition updateTemplate ::
  "address \<Rightarrow> uint256 \<Rightarrow> string \<Rightarrow> string \<Rightarrow> SBTTemplate \<Rightarrow> error + SBTTemplate" where
  "updateTemplate sender templateId name description t =
     (if \<not> templateExists t templateId then Inl Tpl_TemplateDoesNotExist
      else if tpl_issuer (templates t templateId) \<noteq> sender then Inl Tpl_NotTemplateIssuer
      else if tst_paused t then Inl EnforcedPause
      else if \<not> (length name > 0) then Inl Tpl_NameCannotBeEmpty
      else if \<not> (length description > 0) then Inl Tpl_DescriptionCannotBeEmpty
      else if \<not> tpl_active (templates t templateId) then Inl Tpl_TemplateNotActive
      else Inr (t\<lparr>templates := (templates t)(templateId :=
                     (templates t templateId)\<lparr>tpl_name := name,
                                               tpl_description := description\<rparr>)\<rparr>))"

definition deactivateTemplate ::
  "address \<Rightarrow> uint256 \<Rightarrow> SBTTemplate \<Rightarrow> error + SBTTemplate" where
  "deactivateTemplate sender templateId t =
     (if \<not> templateExists t templateId then Inl Tpl_TemplateDoesNotExist
      else if tpl_issuer (templates t templateId) \<noteq> sender then Inl Tpl_NotTemplateIssuer
      else if tst_paused t then Inl EnforcedPause
      else if \<not> tpl_active (templates t templateId) then Inl Tpl_TemplateAlreadyInactive
      else Inr (t\<lparr>templates := (templates t)(templateId :=
                     (templates t templateId)\<lparr>tpl_active := False\<rparr>)\<rparr>))"

definition reactivateTemplate ::
  "address \<Rightarrow> uint256 \<Rightarrow> SBTTemplate \<Rightarrow> error + SBTTemplate" where
  "reactivateTemplate sender templateId t =
     (if \<not> templateExists t templateId then Inl Tpl_TemplateDoesNotExist
      else if tpl_issuer (templates t templateId) \<noteq> sender then Inl Tpl_NotTemplateIssuer
      else if tst_paused t then Inl EnforcedPause
      else if tpl_active (templates t templateId) then Inl Tpl_TemplateAlreadyActive
      else Inr (t\<lparr>templates := (templates t)(templateId :=
                     (templates t templateId)\<lparr>tpl_active := True\<rparr>)\<rparr>))"

definition getTemplate :: "SBTTemplate \<Rightarrow> uint256 \<Rightarrow> error + Template" where
  "getTemplate t templateId =
     (if \<not> templateExists t templateId then Inl Tpl_TemplateDoesNotExist
      else Inr (templates t templateId))"

definition isTemplateActive :: "SBTTemplate \<Rightarrow> uint256 \<Rightarrow> bool" where
  "isTemplateActive t templateId =
     (if templateId > templateIdCounter t \<or> templateId = 0 then False
      else tpl_active (templates t templateId))"

definition tpl_pause :: "address \<Rightarrow> SBTTemplate \<Rightarrow> error + SBTTemplate" where
  "tpl_pause sender t =
     (if sender \<noteq> tst_owner t then Inl OwnableUnauthorizedAccount
      else if tst_paused t then Inl EnforcedPause
      else Inr (t\<lparr>tst_paused := True\<rparr>))"

definition tpl_unpause :: "address \<Rightarrow> SBTTemplate \<Rightarrow> error + SBTTemplate" where
  "tpl_unpause sender t =
     (if sender \<noteq> tst_owner t then Inl OwnableUnauthorizedAccount
      else if \<not> tst_paused t then Inl ExpectedPause
      else Inr (t\<lparr>tst_paused := False\<rparr>))"

text \<open>
  \<open>SBTTemplate\<close> is \<open>Ownable\<close> and so also has the two ownership entry points of that base
  contract: \<open>transferOwnership\<close> (owner only; the new owner is not the zero address) and
  \<open>renounceOwnership\<close> (owner only; the owner becomes the zero address).
\<close>

definition tpl_transferOwnership :: "address \<Rightarrow> address \<Rightarrow> SBTTemplate \<Rightarrow> error + SBTTemplate" where
  "tpl_transferOwnership sender newOwner x =
     (if sender \<noteq> tst_owner x then Inl OwnableUnauthorizedAccount
      else if newOwner = 0 then Inl OwnableInvalidOwner
      else Inr (x\<lparr>tst_owner := newOwner\<rparr>))"

definition tpl_renounceOwnership :: "address \<Rightarrow> SBTTemplate \<Rightarrow> error + SBTTemplate" where
  "tpl_renounceOwnership sender x =
     (if sender \<noteq> tst_owner x then Inl OwnableUnauthorizedAccount
      else Inr (x\<lparr>tst_owner := 0\<rparr>))"

subsection \<open>The chain environment\<close>

text \<open>
  What a call sees of the chain: the caller, the block's timestamp and \<open>prevrandao\<close>.
  Three things the contracts use are not defined by them and are parameters of the model:
  the hash \<open>keccak256(abi.encodePacked(...))\<close> of the eight values that
  \<open>generateUniqueSessionId\<close> packs, the address at which the SBTToken contract is deployed
  (the \<open>msg.sender\<close> that SBTSession sees when SBTToken calls it), and the answer of the
  recipient to the ERC721 receiver check of \<open>_safeMint\<close> (given operator, recipient and
  token id; an externally owned account always passes). The receiver hook is assumed not to
  call back into these contracts. Events are not modelled.
\<close>

record txenv =
  msg_sender :: address
  block_timestamp :: uint256
  block_prevrandao :: uint256

record chain =
  keccak256 :: "address \<times> uint256 \<times> uint256 \<times> uint256 \<times> string \<times> uint256 \<times> uint256 \<times> uint256
                  \<Rightarrow> bytes32"
  token_address :: address
  onERC721Received :: "address \<Rightarrow> address \<Rightarrow> uint256 \<Rightarrow> bool"

subsection \<open>SBTSession\<close>

record Session =
  ses_sessionId :: bytes32
  ses_templateId :: uint256
  ses_maxMints :: uint256
  ses_currentMints :: uint256
  ses_endTimestamp :: uint256
  ses_issuer :: address
  ses_active :: bool
  ses_title :: string

record SBTSession =
  sst_owner :: address
  sst_paused :: bool
  sessions :: "bytes32 \<Rightarrow> Session"
  hasClaimed :: "bytes32 \<Rightarrow> address \<Rightarrow> bool"
  issuerSessions :: "address \<Rightarrow> bytes32 list"
  sessionNonce :: uint256
  sbtTokenContract :: address

definition Session_zero :: Session where
  "Session_zero =
     \<lparr>ses_sessionId = 0, ses_templateId = 0, ses_maxMints = 0, ses_currentMints = 0,
      ses_endTimestamp = 0, ses_issuer = 0, ses_active = False, ses_title = []\<rparr>"

definition SBTSession_constructor :: "address \<Rightarrow> SBTSession" where
  "SBTSession_constructor deployer =
     \<lparr>sst_owner = deployer, sst_paused = False, sessions = (\<lambda>_. Session_zero),
      hasClaimed = (\<lambda>_ _. False), issuerSessions = (\<lambda>_. []), sessionNonce = 0,
      sbtTokenContract = 0\<rparr>"

definition setSBTTokenContract :: "address \<Rightarrow> address \<Rightarrow> SBTSession \<Rightarrow> error + SBTSession" where
  "setSBTTokenContract sender a ss =
     (if sender \<noteq> sst_owner ss then Inl OwnableUnauthorizedAccount
      else if a = 0 then Inl Ses_InvalidTokenContractAddress
      else Inr (ss\<lparr>sbtTokenContract := a\<rparr>))"

definition createSession ::
  "chain \<Rightarrow> IssuerRegistry \<Rightarrow> SBTTemplate \<Rightarrow> txenv \<Rightarrow> uint256 \<Rightarrow> uint256 \<Rightarrow> uint256 \<Rightarrow> string
     \<Rightarrow> SBTSession \<Rightarrow> error + (bytes32 \<times> SBTSession)" where
  "createSession ch reg tst e templateId maxMints durationInSeconds title ss =
     (if \<not> isAuthorizedIssuer reg (msg_sender e) then Inl Ses_NotAuthorizedIssuer
      else if sst_paused ss then Inl EnforcedPause
      else if \<not> isTemplateActive tst templateId then Inl Ses_TemplateNotActive
      else if \<not> (maxMints > 0) then Inl Ses_MaxMintsZero
      else if \<not> (durationInSeconds > 0) then Inl Ses_DurationZero
      else case getTemplate tst templateId of
        Inl err \<Rightarrow> Inl err
      | Inr template \<Rightarrow>
          if tpl_issuer template \<noteq> msg_sender e then Inl Ses_NotTemplateOwner
          else if block_timestamp e + durationInSeconds > uint256_max then Inl Panic_overflow
          else if sessionNonce ss \<ge> uint256_max then Inl Panic_overflow
          else
            (let endTimestamp = block_timestamp e + durationInSeconds;
                 nonce = sessionNonce ss + 1;
                 sessionId = keccak256 ch
                   (msg_sender e, templateId, maxMints, endTimestamp, title,
                    block_timestamp e, block_prevrandao e, nonce)
             in if ses_issuer (sessions ss sessionId) \<noteq> 0 then Inl Ses_SessionIdCollision
                else Inr (sessionId,
                  ss\<lparr>sessionNonce := nonce,
                     sessions := (sessions ss)(sessionId :=
                       \<lparr>ses_sessionId = sessionId, ses_templateId = templateId,
                        ses_maxMints = maxMints, ses_currentMints = 0,
                        ses_endTimestamp = endTimestamp, ses_issuer = msg_sender e,
                        ses_active = True, ses_title = title\<rparr>),
                     issuerSessions := (issuerSessions ss)(msg_sender e :=
                       issuerSessions ss (msg_sender e) @ [sessionId])\<rparr>)))"

definition incrementMintCount :: "address \<Rightarrow> bytes32 \<Rightarrow> SBTSession \<Rightarrow> error + SBTSession" where
  "incrementMintCount sender sessionId ss =
     (if sender \<noteq> sbtTokenContract ss then Inl Ses_NotSBTTokenContract
      else if \<not> (ses_issuer (sessions ss sessionId) \<noteq> 0) then Inl Ses_SessionDoesNotExist
      else if ses_currentMints (sessions ss sessionId) \<ge> uint256_max then Inl Panic_overflow
      else Inr (ss\<lparr>sessions := (sessions ss)(sessionId :=
                     (sessions ss sessionId)\<lparr>ses_currentMints :=
                        ses_currentMints (sessions ss sessionId) + 1\<rparr>)\<rparr>))"

definition endSession :: "address \<Rightarrow> bytes32 \<Rightarrow> SBTSession \<Rightarrow> error + SBTSession" where
  "endSession sender sessionId ss =
     (if \<not> (ses_issuer (sessions ss sessionId) \<noteq> 0) then Inl Ses_SessionDoesNotExist
      else if ses_issuer (sessions ss sessionId) \<noteq> sender then Inl Ses_NotSessionIssuer
      else if sst_paused ss then Inl EnforcedPause
      else if \<not> ses_active (sessions ss sessionId) then Inl Ses_SessionAlreadyEnded
      else Inr (ss\<lparr>sessions := (sessions ss)(sessionId :=
                     (sessions ss sessionId)\<lparr>ses_active := False\<rparr>)\<rparr>))"

definition getSession :: "SBTSession \<Rightarrow> bytes32 \<Rightarrow> error + Session" where
  "getSession ss sessionId =
     (if \<not> (ses_issuer (sessions ss sessionId) \<noteq> 0) then Inl Ses_SessionDoesNotExist
      else Inr (sessions ss sessionId))"

definition isSessionClaimable :: "SBTSession \<Rightarrow> uint256 \<Rightarrow> bytes32 \<Rightarrow> bool" where
  "isSessionClaimable ss now sessionId =
     (if ses_issuer (sessions ss sessionId) = 0 then False
      else if \<not> ses_active (sessions ss sessionId) then False
      else if now > ses_endTimestamp (sessions ss sessionId) then False
      else if ses_currentMints (sessions ss sessionId) \<ge> ses_maxMints (sessions ss sessionId)
        then False
      else True)"

definition getSessionStats ::
  "SBTSession \<Rightarrow> uint256 \<Rightarrow> bytes32 \<Rightarrow> error + (uint256 \<times> uint256 \<times> uint256 \<times> uint256)" where
  "getSessionStats ss now sessionId =
     (if \<not> (ses_issuer (sessions ss sessionId) \<noteq> 0) then Inl Ses_SessionDoesNotExist
      else
        (let session = sessions ss sessionId;
             currentMints = ses_currentMints session;
             maxMints = ses_maxMints session;
             remainingMints = (if maxMints > currentMints then maxMints - currentMints else 0);
             timeRemaining = (if ses_endTimestamp session > now
                              then ses_endTimestamp session - now else 0)
         in Inr (currentMints, maxMints, remainingMints, timeRemaining)))"

definition ses_pause :: "address \<Rightarrow> SBTSession \<Rightarrow> error + SBTSession" where
  "ses_pause sender ss =
     (if sender \<noteq> sst_owner ss then Inl OwnableUnauthorizedAccount
      else if sst_paused ss then Inl EnforcedPause
      else Inr (ss\<lparr>sst_paused := True\<rparr>))"

definition ses_unpause :: "address \<Rightarrow> SBTSession \<Rightarrow> error + SBTSession" where
  "ses_unpause sender ss =
     (if sender \<noteq> sst_owner ss then Inl OwnableUnauthorizedAccount
      else if \<not> sst_paused ss then Inl ExpectedPause
      else Inr (ss\<lparr>sst_paused := False\<rparr>))"

text \<open>
  \<open>SBTSession\<close> is \<open>Ownable\<close> and so also has the two ownership entry points of that base
  contract: \<open>transferOwnership\<close> (owner only; the new owner is not the zero address) and
  \<open>renounceOwnership\<close> (owner only; the owner becomes the zero address).
\<close>

definition ses_transferOwnership :: "address \<Rightarrow> address \<Rightarrow> SBTSession \<Rightarrow> error + SBTSession" where
  "ses_transferOwnership sender newOwner x =
     (if sender \<noteq> sst_owner x then Inl OwnableUnauthorizedAccount
      else if newOwner = 0 then Inl OwnableInvalidOwner
      else Inr (x\<lparr>sst_owner := newOwner\<rparr>))"

definition ses_renounceOwnership :: "address \<Rightarrow> SBTSession \<Rightarrow> error + SBTSession" where
  "ses_renounceOwnership sender x =
     (if sender \<noteq> sst_owner x then Inl OwnableUnauthorizedAccount
      else Inr (x\<lparr>sst_owner := 0\<rparr>))"

subsection \<open>SBTToken\<close>

record SBTData =
  sbt_name :: string
  sbt_description :: string
  sbt_issuer :: address
  sbt_mintedAt :: uint256
  sbt_templateId :: uint256
  sbt_sessionId :: bytes32
  sbt_revoked :: bool

text \<open>\<open>owners\<close> is the ERC721 owner table (\<open>_ownerOf\<close>); a token exists iff its owner is not 0.\<close>

record SBTToken =
  tok_owner :: address
  tok_paused :: bool
  nextTokenId :: uint256
  sbtData :: "uint256 \<Rightarrow> SBTData"
  hasTokenFromTemplate :: "address \<Rightarrow> uint256 \<Rightarrow> bool"
  hasTokenFromSession :: "address \<Rightarrow> bytes32 \<Rightarrow> bool"
  owners :: "uint256 \<Rightarrow> address"

definition SBTData_zero :: SBTData where
  "SBTData_zero =
     \<lparr>sbt_name = [], sbt_description = [], sbt_issuer = 0, sbt_mintedAt = 0,
      sbt_templateId = 0, sbt_sessionId = 0, sbt_revoked = False\<rparr>"

definition SBTToken_constructor :: "address \<Rightarrow> error + SBTToken" where
  "SBTToken_constructor owner0 =
     (if owner0 = 0 then Inl OwnableInvalidOwner
      else Inr \<lparr>tok_owner = owner0, tok_paused = False, nextTokenId = 1,
                sbtData = (\<lambda>_. SBTData_zero), hasTokenFromTemplate = (\<lambda>_ _. False),
                hasTokenFromSession = (\<lambda>_ _. False), owners = (\<lambda>_. 0)\<rparr>)"

text \<open>
  The overridden \<open>_update\<close>: a token that has an owner cannot move to another owner;
  otherwise the owner is written and the previous owner returned.
\<close>

definition token_update :: "address \<Rightarrow> uint256 \<Rightarrow> SBTToken \<Rightarrow> error + (address \<times> SBTToken)" where
  "token_update to tokenId t =
     (let from = owners t tokenId
      in if from \<noteq> 0 \<and> to \<noteq> 0 then Inl Tok_SoulboundTransfer
         else Inr (from, t\<lparr>owners := (owners t)(tokenId := to)\<rparr>))"

text \<open>
  \<open>_safeMint\<close> of the ERC721 base: the recipient is not the zero address, the token had
  no owner, and the recipient passes the receiver check.
\<close>

definition safeMint :: "chain \<Rightarrow> address \<Rightarrow> address \<Rightarrow> uint256 \<Rightarrow> SBTToken \<Rightarrow> error + SBTToken" where
  "safeMint ch operator to tokenId t =
     (if to = 0 then Inl ERC721InvalidReceiver
      else case token_update to tokenId t of
        Inl err \<Rightarrow> Inl err
      | Inr (previousOwner, t1) \<Rightarrow>
          if previousOwner \<noteq> 0 then Inl ERC721InvalidSender
          else if \<not> onERC721Received ch operator to tokenId then Inl ERC721InvalidReceiver
          else Inr t1)"

subsection \<open>The system of the four contracts\<close>

text \<open>
  Each contract holds the addresses of the contracts it calls as immutables set at
  construction; the model keeps the four storages side by side in one record, and the
  SBTToken entry points read the registry, the template store and the session manager
  from it and write the session manager and their own storage.
\<close>

record system =
  issuerRegistry :: IssuerRegistry
  sbtTemplate :: SBTTemplate
  sbtSession :: SBTSession
  sbtToken :: SBTToken

definition mintFromTemplate ::
  "chain \<Rightarrow> txenv \<Rightarrow> address \<Rightarrow> uint256 \<Rightarrow> system \<Rightarrow> error + system" where
  "mintFromTemplate ch e to templateId s =
     (let t = sbtToken s in
      if \<not> isAuthorizedIssuer (issuerRegistry s) (msg_sender e) then Inl Tok_NotAuthorizedIssuer
      else if tok_paused t then Inl EnforcedPause
      else if to = 0 then Inl Tok_MintToZeroAddress
      else if \<not> isTemplateActive (sbtTemplate s) templateId then Inl Tok_TemplateNotActive
      else if hasTokenFromTemplate t to templateId then Inl Tok_AlreadyHasTokenFromTemplate
      else case getTemplate (sbtTemplate s) templateId of
        Inl err \<Rightarrow> Inl err
      | Inr template \<Rightarrow>
          if tpl_issuer template \<noteq> msg_sender e then Inl Tok_NotTemplateOwner
          else if nextTokenId t \<ge> uint256_max then Inl Panic_overflow
          else
            (let tokenId = nextTokenId t
             in case safeMint ch (msg_sender e) to tokenId (t\<lparr>nextTokenId := tokenId + 1\<rparr>) of
               Inl err \<Rightarrow> Inl err
             | Inr t2 \<Rightarrow>
                 Inr (s\<lparr>sbtToken := t2
                   \<lparr>sbtData := (sbtData t2)(tokenId :=
                      \<lparr>sbt_name = tpl_name template,
                       sbt_description = tpl_description template,
                       sbt_issuer = msg_sender e, sbt_mintedAt = block_timestamp e,
                       sbt_templateId = templateId, sbt_sessionId = 0,
                       sbt_revoked = False\<rparr>),
                    hasTokenFromTemplate := (hasTokenFromTemplate t2)(to :=
                      (hasTokenFromTemplate t2 to)(templateId := True))\<rparr>\<rparr>)))"

definition mintFromSession ::
  "chain \<Rightarrow> txenv \<Rightarrow> address \<Rightarrow> bytes32 \<Rightarrow> system \<Rightarrow> error + system" where
  "mintFromSession ch e to sessionId s =
     (let t = sbtToken s in
      if \<not> isAuthorizedIssuer (issuerRegistry s) (msg_sender e) then Inl Tok_NotAuthorizedIssuer
      else if tok_paused t then Inl EnforcedPause
      else if to = 0 then Inl Tok_MintToZeroAddress
      else if \<not> isSessionClaimable (sbtSession s) (block_timestamp e) sessionId
        then Inl Tok_SessionNotClaimable
      else if hasTokenFromSession t to sessionId then Inl Tok_AlreadyHasTokenFromSession
      else case getSession (sbtSession s) sessionId of
        Inl err \<Rightarrow> Inl err
      | Inr session \<Rightarrow>
          if ses_issuer session \<noteq> msg_sender e then Inl Tok_NotSessionOwner
          else (case getTemplate (sbtTemplate s) (ses_templateId session) of
            Inl err \<Rightarrow> Inl err
          | Inr template \<Rightarrow>
              if nextTokenId t \<ge> uint256_max then Inl Panic_overflow
              else
                (let tokenId = nextTokenId t
                 in case safeMint ch (msg_sender e) to tokenId
                           (t\<lparr>nextTokenId := tokenId + 1\<rparr>) of
                   Inl err \<Rightarrow> Inl err
                 | Inr t2 \<Rightarrow>
                     (case incrementMintCount (token_address ch) sessionId (sbtSession s) of
                        Inl err \<Rightarrow> Inl err
                      | Inr ss' \<Rightarrow>
                          Inr (s\<lparr>sbtSession := ss',
                                sbtToken := t2
                            \<lparr>sbtData := (sbtData t2)(tokenId :=
                               \<lparr>sbt_name = tpl_name template,
                                sbt_description = tpl_description template,
                                sbt_issuer = msg_sender e, sbt_mintedAt = block_timestamp e,
                                sbt_templateId = ses_templateId session,
                                sbt_sessionId = sessionId, sbt_revoked = False\<rparr>)\<rparr>
                            \<lparr>hasTokenFromSession := (hasTokenFromSession t2)(to :=
                               (hasTokenFromSession t2 to)(sessionId := True))\<rparr>
                            \<lparr>hasTokenFromTemplate := (hasTokenFromTemplate t2)(to :=
                               (hasTokenFromTemplate t2 to)
                                 (ses_templateId session := True))\<rparr>\<rparr>)))))"

definition claimFromSession ::
  "chain \<Rightarrow> txenv \<Rightarrow> bytes32 \<Rightarrow> system \<Rightarrow> error + system" where
  "claimFromSession ch e sessionId s =
     (let t = sbtToken s in
      if tok_paused t then Inl EnforcedPause
      else if \<not> isSessionClaimable (sbtSession s) (block_timestamp e) sessionId
        then Inl Tok_SessionNotClaimable
      else if hasTokenFromSession t (msg_sender e) sessionId
        then Inl Tok_AlreadyHasTokenFromSession
      else case getSession (sbtSession s) sessionId of
        Inl err \<Rightarrow> Inl err
      | Inr session \<Rightarrow>
          (case getTemplate (sbtTemplate s) (ses_templateId session) of
            Inl err \<Rightarrow> Inl err
          | Inr template \<Rightarrow>
              if nextTokenId t \<ge> uint256_max then Inl Panic_overflow
              else
                (let tokenId = nextTokenId t
                 in case safeMint ch (msg_sender e) (msg_sender e) tokenId
                           (t\<lparr>nextTokenId := tokenId + 1\<rparr>) of
                   Inl err \<Rightarrow> Inl err
                 | Inr t2 \<Rightarrow>
                     (case incrementMintCount (token_address ch) sessionId (sbtSession s) of
                        Inl err \<Rightarrow> Inl err
                      | Inr ss' \<Rightarrow>
                          Inr (s\<lparr>sbtSession := ss',
                                sbtToken := t2
                            \<lparr>sbtData := (sbtData t2)(tokenId :=
                               \<lparr>sbt_name = tpl_name template,
                                sbt_description = tpl_description template,
                                sbt_issuer = ses_issuer session,
                                sbt_mintedAt = block_timestamp e,
                                sbt_templateId = ses_templateId session,
                                sbt_sessionId = sessionId, sbt_revoked = False\<rparr>)\<rparr>
                            \<lparr>hasTokenFromSession := (hasTokenFromSession t2)((msg_sender e) :=
                               (hasTokenFromSession t2 (msg_sender e))(sessionId := True))\<rparr>
                            \<lparr>hasTokenFromTemplate := (hasTokenFromTemplate t2)((msg_sender e) :=
                               (hasTokenFromTemplate t2 (msg_sender e))
                                 (ses_templateId session := True))\<rparr>\<rparr>)))))"

text \<open>
  The first loop of \<open>batchMintFromSession\<close>: one mint per recipient, in order, stopping
  at the first recipient that fails a check.
\<close>

fun batchMintLoop ::
  "chain \<Rightarrow> txenv \<Rightarrow> bytes32 \<Rightarrow> Session \<Rightarrow> Template \<Rightarrow> address list \<Rightarrow> SBTToken
     \<Rightarrow> error + SBTToken" where
  "batchMintLoop ch e sessionId session template [] t = Inr t"
| "batchMintLoop ch e sessionId session template (to # rest) t =
     (if to = 0 then Inl Tok_MintToZeroAddress
      else if hasTokenFromSession t to sessionId then Inl Tok_AlreadyHasTokenFromSession
      else if nextTokenId t \<ge> uint256_max then Inl Panic_overflow
      else
        (let tokenId = nextTokenId t
         in case safeMint ch (msg_sender e) to tokenId (t\<lparr>nextTokenId := tokenId + 1\<rparr>) of
           Inl err \<Rightarrow> Inl err
         | Inr t2 \<Rightarrow>
             batchMintLoop ch e sessionId session template rest
               (t2\<lparr>sbtData := (sbtData t2)(tokenId :=
                     \<lparr>sbt_name = tpl_name template,
                      sbt_description = tpl_description template,
                      sbt_issuer = msg_sender e, sbt_mintedAt = block_timestamp e,
                      sbt_templateId = ses_templateId session,
                      sbt_sessionId = sessionId, sbt_revoked = False\<rparr>)\<rparr>
                  \<lparr>hasTokenFromSession := (hasTokenFromSession t2)(to :=
                     (hasTokenFromSession t2 to)(sessionId := True))\<rparr>
                  \<lparr>hasTokenFromTemplate := (hasTokenFromTemplate t2)(to :=
                     (hasTokenFromTemplate t2 to)(ses_templateId session := True))\<rparr>)))"

text \<open>The second loop: \<open>incrementMintCount\<close> once per recipient.\<close>

fun incrementMintCountLoop ::
  "address \<Rightarrow> bytes32 \<Rightarrow> nat \<Rightarrow> SBTSession \<Rightarrow> error + SBTSession" where
  "incrementMintCountLoop sender sessionId 0 ss = Inr ss"
| "incrementMintCountLoop sender sessionId (Suc n) ss =
     (case incrementMintCount sender sessionId ss of
        Inl err \<Rightarrow> Inl err
      | Inr ss' \<Rightarrow> incrementMintCountLoop sender sessionId n ss')"

definition batchMintFromSession ::
  "chain \<Rightarrow> txenv \<Rightarrow> address list \<Rightarrow> bytes32 \<Rightarrow> system \<Rightarrow> error + system" where
  "batchMintFromSession ch e recipients sessionId s =
     (let t = sbtToken s in
      if \<not> isAuthorizedIssuer (issuerRegistry s) (msg_sender e) then Inl Tok_NotAuthorizedIssuer
      else if tok_paused t then Inl EnforcedPause
      else if \<not> (length recipients > 0) then Inl Tok_EmptyRecipients
      else if \<not> (length recipients \<le> 100) then Inl Tok_BatchTooLarge
      else if \<not> isSessionClaimable (sbtSession s) (block_timestamp e) sessionId
        then Inl Tok_SessionNotClaimable
      else case getSession (sbtSession s) sessionId of
        Inl err \<Rightarrow> Inl err
      | Inr session \<Rightarrow>
          if ses_issuer session \<noteq> msg_sender e then Inl Tok_NotSessionOwner
          else (case getSessionStats (sbtSession s) (block_timestamp e) sessionId of
            Inl err \<Rightarrow> Inl err
          | Inr (currentMints, maxMints, remainingMints, timeRemaining) \<Rightarrow>
              if currentMints + length recipients > uint256_max then Inl Panic_overflow
              else if \<not> (currentMints + length recipients \<le> maxMints)
                then Inl Tok_ExceedsSessionMintLimit
              else (case getTemplate (sbtTemplate s) (ses_templateId session) of
                Inl err \<Rightarrow> Inl err
              | Inr template \<Rightarrow>
                  (case batchMintLoop ch e sessionId session template recipients t of
                     Inl err \<Rightarrow> Inl err
                   | Inr t' \<Rightarrow>
                       (case incrementMintCountLoop (token_address ch) sessionId
                               (length recipients) (sbtSession s) of
                          Inl err \<Rightarrow> Inl err
                        | Inr ss' \<Rightarrow> Inr (s\<lparr>sbtSession := ss', sbtToken := t'\<rparr>))))))"

definition revokeSBT :: "address \<Rightarrow> uint256 \<Rightarrow> SBTToken \<Rightarrow> error + SBTToken" where
  "revokeSBT sender tokenId t =
     (if \<not> (owners t tokenId \<noteq> 0) then Inl Tok_TokenDoesNotExist
      else if sbt_revoked (sbtData t tokenId) then Inl Tok_TokenRevoked
      else if tok_paused t then Inl EnforcedPause
      else if \<not> (sender = sbt_issuer (sbtData t tokenId) \<or> sender = tok_owner t)
        then Inl Tok_NotAuthorizedToRevoke
      else
        (let tokenOwner = owners t tokenId;
             templateId = sbt_templateId (sbtData t tokenId);
             sessionId = sbt_sessionId (sbtData t tokenId);
             t1 = t\<lparr>sbtData := (sbtData t)(tokenId :=
                       (sbtData t tokenId)\<lparr>sbt_revoked := True\<rparr>)\<rparr>;
             t2 = t1\<lparr>hasTokenFromTemplate := (hasTokenFromTemplate t1)(tokenOwner :=
                       (hasTokenFromTemplate t1 tokenOwner)(templateId := False))\<rparr>
         in if sessionId \<noteq> 0
            then Inr (t2\<lparr>hasTokenFromSession := (hasTokenFromSession t2)(tokenOwner :=
                            (hasTokenFromSession t2 tokenOwner)(sessionId := False))\<rparr>)
            else Inr t2))"

definition tok_pause :: "address \<Rightarrow> SBTToken \<Rightarrow> error + SBTToken" where
  "tok_pause sender t =
     (if sender \<noteq> tok_owner t then Inl OwnableUnauthorizedAccount
      else if tok_paused t then Inl EnforcedPause
      else Inr (t\<lparr>tok_paused := True\<rparr>))"

definition tok_unpause :: "address \<Rightarrow> SBTToken \<Rightarrow> error + SBTToken" where
  "tok_unpause sender t =
     (if sender \<noteq> tok_owner t then Inl OwnableUnauthorizedAccount
      else if \<not> tok_paused t then Inl ExpectedPause
      else Inr (t\<lparr>tok_paused := False\<rparr>))"

text \<open>
  \<open>SBTToken\<close> is \<open>Ownable\<close> and so also has the two ownership entry points of that base
  contract: \<open>transferOwnership\<close> (owner only; the new owner is not the zero address) and
  \<open>renounceOwnership\<close> (owner only; the owner becomes the zero address).
\<close>

definition tok_transferOwnership :: "address \<Rightarrow> address \<Rightarrow> SBTToken \<Rightarrow> error + SBTToken" where
  "tok_transferOwnership sender newOwner x =
     (if sender \<noteq> tok_owner x then Inl OwnableUnauthorizedAccount
      else if newOwner = 0 then Inl OwnableInvalidOwner
      else Inr (x\<lparr>tok_owner := newOwner\<rparr>))"

definition tok_renounceOwnership :: "address \<Rightarrow> SBTToken \<Rightarrow> error + SBTToken" where
  "tok_renounceOwnership sender x =
     (if sender \<noteq> tok_owner x then Inl OwnableUnauthorizedAccount
      else Inr (x\<lparr>tok_owner := 0\<rparr>))"

subsection \<open>Transactions\<close>

text \<open>
  The entry points an account can call, with their arguments: those written in the four
  contracts and the ownership entry points each contract has from \<open>Ownable\<close>. A
  transaction either succeeds with the new storage or reverts, and a reverted transaction
  leaves the storage as it was. The token's remaining ERC721 entry points are left out
  because they never change the storage: \<open>approve\<close> and \<open>setApprovalForAll\<close> always
  revert, and a transfer always reverts in the overridden \<open>_update\<close> or for want of a
  token.
\<close>

datatype call =
    AddIssuer address string string
  | RemoveIssuer address
  | UpdateIssuer address string string
  | RegistryPause
  | RegistryUnpause
  | CreateTemplate string string
  | UpdateTemplate uint256 string string
  | DeactivateTemplate uint256
  | ReactivateTemplate uint256
  | TemplatePause
  | TemplateUnpause
  | CreateSession uint256 uint256 uint256 string
  | EndSession bytes32
  | IncrementMintCount bytes32
  | SessionPause
  | SessionUnpause
  | MintFromTemplate address uint256
  | MintFromSession address bytes32
  | BatchMintFromSession "address list" bytes32
  | ClaimFromSession bytes32
  | RevokeSBT uint256
  | TokenPause
  | TokenUnpause
  | SetSBTTokenContract address
  | RegistryTransferOwnership address
  | RegistryRenounceOwnership
  | TemplateTransferOwnership address
  | TemplateRenounceOwnership
  | SessionTransferOwnership address
  | SessionRenounceOwnership
  | TokenTransferOwnership address
  | TokenRenounceOwnership

definition in_registry :: "system \<Rightarrow> error + IssuerRegistry \<Rightarrow> error + system" where
  "in_registry s r = (case r of Inl err \<Rightarrow> Inl err | Inr x \<Rightarrow> Inr (s\<lparr>issuerRegistry := x\<rparr>))"

definition in_template :: "system \<Rightarrow> error + SBTTemplate \<Rightarrow> error + system" where
  "in_template s r = (case r of Inl err \<Rightarrow> Inl err | Inr x \<Rightarrow> Inr (s\<lparr>sbtTemplate := x\<rparr>))"

definition in_session :: "system \<Rightarrow> error + SBTSession \<Rightarrow> error + system" where
  "in_session s r = (case r of Inl err \<Rightarrow> Inl err | Inr x \<Rightarrow> Inr (s\<lparr>sbtSession := x\<rparr>))"

definition in_token :: "system \<Rightarrow> error + SBTToken \<Rightarrow> error + system" where
  "in_token s r = (case r of Inl err \<Rightarrow> Inl err | Inr x \<Rightarrow> Inr (s\<lparr>sbtToken := x\<rparr>))"

fun exec :: "chain \<Rightarrow> txenv \<Rightarrow> call \<Rightarrow> system \<Rightarrow> error + system" where
  "exec ch e (AddIssuer issuer name organization) s =
     in_registry s (addIssuer (msg_sender e) (block_timestamp e) issuer name organization
                      (issuerRegistry s))"
| "exec ch e (RemoveIssuer issuer) s =
     in_registry s (removeIssuer (msg_sender e) issuer (issuerRegistry s))"
| "exec ch e (UpdateIssuer issuer name organization) s =
     in_registry s (updateIssuer (msg_sender e) issuer name organization (issuerRegistry s))"
| "exec ch e RegistryPause s = in_registry s (reg_pause (msg_sender e) (issuerRegistry s))"
| "exec ch e RegistryUnpause s = in_registry s (reg_unpause (msg_sender e) (issuerRegistry s))"
| "exec ch e (CreateTemplate name description) s =
     in_template s (createTemplate (issuerRegistry s) (msg_sender e) (block_timestamp e)
                      name description (sbtTemplate s))"
| "exec ch e (UpdateTemplate templateId name description) s =
     in_template s (updateTemplate (msg_sender e) templateId name description (sbtTemplate s))"
| "exec ch e (DeactivateTemplate templateId) s =
     in_template s (deactivateTemplate (msg_sender e) templateId (sbtTemplate s))"
| "exec ch e (ReactivateTemplate templateId) s =
     in_template s (reactivateTemplate (msg_sender e) templateId (sbtTemplate s))"
| "exec ch e TemplatePause s = in_template s (tpl_pause (msg_sender e) (sbtTemplate s))"
| "exec ch e TemplateUnpause s = in_template s (tpl_unpause (msg_sender e) (sbtTemplate s))"
| "exec ch e (CreateSession templateId maxMints durationInSeconds title) s =
     in_session s
       (case createSession ch (issuerRegistry s) (sbtTemplate s) e templateId maxMints
               durationInSeconds title (sbtSession s) of
          Inl err \<Rightarrow> Inl err
        | Inr (sessionId, ss') \<Rightarrow> Inr ss')"
| "exec ch e (EndSession sessionId) s =
     in_session s (endSession (msg_sender e) sessionId (sbtSession s))"
| "exec ch e (IncrementMintCount sessionId) s =
     in_session s (incrementMintCount (msg_sender e) sessionId (sbtSession s))"
| "exec ch e SessionPause s = in_session s (ses_pause (msg_sender e) (sbtSession s))"
| "exec ch e SessionUnpause s = in_session s (ses_unpause (msg_sender e) (sbtSession s))"
| "exec ch e (MintFromTemplate to templateId) s = mintFromTemplate ch e to templateId s"
| "exec ch e (MintFromSession to sessionId) s = mintFromSession ch e to sessionId s"
| "exec ch e (BatchMintFromSession recipients sessionId) s =
     batchMintFromSession ch e recipients sessionId s"
| "exec ch e (ClaimFromSession sessionId) s = claimFromSession ch e sessionId s"
| "exec ch e (RevokeSBT tokenId) s =
     in_token s (revokeSBT (msg_sender e) tokenId (sbtToken s))"
| "exec ch e TokenPause s = in_token s (tok_pause (msg_sender e) (sbtToken s))"
| "exec ch e TokenUnpause s = in_token s (tok_unpause (msg_sender e) (sbtToken s))"
| "exec ch e (SetSBTTokenContract a) s =
     in_session s (setSBTTokenContract (msg_sender e) a (sbtSession s))"
| "exec ch e (RegistryTransferOwnership newOwner) s =
     in_registry s (reg_transferOwnership (msg_sender e) newOwner (issuerRegistry s))"
| "exec ch e RegistryRenounceOwnership s =
     in_registry s (reg_renounceOwnership (msg_sender e) (issuerRegistry s))"
| "exec ch e (TemplateTransferOwnership newOwner) s =
     in_template s (tpl_transferOwnership (msg_sender e) newOwner (sbtTemplate s))"
| "exec ch e TemplateRenounceOwnership s =
     in_template s (tpl_renounceOwnership (msg_sender e) (sbtTemplate s))"
| "exec ch e (SessionTransferOwnership newOwner) s =
     in_session s (ses_transferOwnership (msg_sender e) newOwner (sbtSession s))"
| "exec ch e SessionRenounceOwnership s =
     in_session s (ses_renounceOwnership (msg_sender e) (sbtSession s))"
| "exec ch e (TokenTransferOwnership newOwner) s =
     in_token s (tok_transferOwnership (msg_sender e) newOwner (sbtToken s))"
| "exec ch e TokenRenounceOwnership s =
     in_token s (tok_renounceOwnership (msg_sender e) (sbtToken s))"

definition transact :: "chain \<Rightarrow> txenv \<Rightarrow> call \<Rightarrow> system \<Rightarrow> system" where
  "transact ch e c s = (case exec ch e c s of Inl err \<Rightarrow> s | Inr s' \<Rightarrow> s')"

fun run :: "chain \<Rightarrow> (txenv \<times> call) list \<Rightarrow> system \<Rightarrow> system" where
  "run ch [] s = s"
| "run ch ((e, c) # rest) s = run ch rest (transact ch e c s)"

text \<open>
  Deployment, as the deploy script does it: the deployer owns the four contracts and is
  the registry's first issuer, and \<open>setSBTTokenContract\<close> points the session manager at the
  token contract.
\<close>

definition deploy :: "chain \<Rightarrow> address \<Rightarrow> uint256 \<Rightarrow> error + system" where
  "deploy ch deployer now =
     (case IssuerRegistry_constructor deployer now of
        Inl err \<Rightarrow> Inl err
      | Inr reg \<Rightarrow>
          (case SBTToken_constructor deployer of
             Inl err \<Rightarrow> Inl err
           | Inr tok \<Rightarrow>
               (case setSBTTokenContract deployer (token_address ch)
                       (SBTSession_constructor deployer) of
                  Inl err \<Rightarrow> Inl err
                | Inr ss \<Rightarrow>
                    Inr \<lparr>issuerRegistry = reg,
                         sbtTemplate = SBTTemplate_constructor deployer,
                         sbtSession = ss, sbtToken = tok\<rparr>)))"

text \<open>
  The states a system deployed by \<open>deployer\<close> can be in: any number of transactions, by
  any callers at any times, after deployment. The token contract itself sends no
  transaction, so a direct call of \<open>incrementMintCount\<close> comes from another address.
\<close>

definition external_call :: "chain \<Rightarrow> txenv \<Rightarrow> call \<Rightarrow> bool" where
  "external_call ch e c =
     (case c of IncrementMintCount sessionId \<Rightarrow> msg_sender e \<noteq> token_address ch | _ \<Rightarrow> True)"

inductive reachable :: "chain \<Rightarrow> address \<Rightarrow> system \<Rightarrow> bool"
  for ch :: chain and deployer :: address where
  reachable_deploy: "deploy ch deployer now = Inr s \<Longrightarrow> reachable ch deployer s"
| reachable_transact:
    "reachable ch deployer s \<Longrightarrow> external_call ch e c
       \<Longrightarrow> reachable ch deployer (transact ch e c s)"

text \<open>
  The states that can be reached while the owners refrain from some transactions:
  \<open>reachable_while ch permitted deployer s\<close> holds when \<open>s\<close> is reached after deployment by
  transactions that all satisfy \<open>permitted\<close>.
\<close>

inductive reachable_while :: "chain \<Rightarrow> (txenv \<Rightarrow> call \<Rightarrow> bool) \<Rightarrow> address \<Rightarrow> system \<Rightarrow> bool"
  for ch :: chain and permitted :: "txenv \<Rightarrow> call \<Rightarrow> bool" and deployer :: address where
  reachable_while_deploy: "deploy ch deployer now = Inr s \<Longrightarrow> reachable_while ch permitted deployer s"
| reachable_while_transact:
    "reachable_while ch permitted deployer s \<Longrightarrow> external_call ch e c \<Longrightarrow> permitted e c
       \<Longrightarrow> reachable_while ch permitted deployer (transact ch e c s)"

text \<open>
  Two such restrictions. \<open>keeps_registry_owner\<close>: the transaction is not one of the
  registry's two ownership entry points. \<open>keeps_token_contract\<close>: the transaction does not
  point the session manager's \<open>sbtTokenContract\<close> at an address other than the token
  contract.
\<close>

fun keeps_registry_owner :: "txenv \<Rightarrow> call \<Rightarrow> bool" where
  "keeps_registry_owner e (RegistryTransferOwnership newOwner) = False"
| "keeps_registry_owner e RegistryRenounceOwnership = False"
| "keeps_registry_owner e c = True"

fun keeps_token_contract :: "chain \<Rightarrow> txenv \<Rightarrow> call \<Rightarrow> bool" where
  "keeps_token_contract ch e (SetSBTTokenContract a) = (a = token_address ch)"
| "keeps_token_contract ch e c = True"

text \<open>
  A concrete chain for worked examples: the session id is the nonce (distinct sessions
  get distinct, non-zero ids), the token contract lives at address 1000, and every
  recipient passes the receiver check.
\<close>

definition example_chain :: chain where
  "example_chain =
     \<lparr>keccak256 = (\<lambda>(sender, templateId, maxMints, endTimestamp, title, ts, rnd, nonce). nonce),
      token_address = 1000,
      onERC721Received = (\<lambda>operator to tokenId. True)\<rparr>"

definition call_by :: "address \<Rightarrow> uint256 \<Rightarrow> txenv" where
  "call_by a now = \<lparr>msg_sender = a, block_timestamp = now, block_prevrandao = 0\<rparr>"

definition example_deployed :: system where
  "example_deployed = projr (deploy example_chain 1 0)"

subsection \<open>State predicates used by the properties\<close>

text \<open>The registry's owner is \<open>d\<close> and \<open>d\<close> is an authorized issuer.\<close>

definition owner_authorized :: "address \<Rightarrow> system \<Rightarrow> bool" where
  "owner_authorized d s =
     (reg_owner (issuerRegistry s) = d \<and> isAuthorizedIssuer (issuerRegistry s) d)"

text \<open>
  The pause flag that guards an entry point: each contract has its own flag, and the
  entry points marked \<open>whenNotPaused\<close> read the flag of the contract they belong to.
  \<open>pause\<close>, \<open>unpause\<close>, \<open>incrementMintCount\<close>, \<open>setSBTTokenContract\<close> and the ownership entry
  points carry no such guard.
\<close>

fun guarding_pause_flag :: "call \<Rightarrow> system \<Rightarrow> bool" where
  "guarding_pause_flag (AddIssuer issuer name organization) s = reg_paused (issuerRegistry s)"
| "guarding_pause_flag (RemoveIssuer issuer) s = reg_paused (issuerRegistry s)"
| "guarding_pause_flag (UpdateIssuer issuer name organization) s = reg_paused (issuerRegistry s)"
| "guarding_pause_flag (CreateTemplate name description) s = tst_paused (sbtTemplate s)"
| "guarding_pause_flag (UpdateTemplate templateId name description) s = tst_paused (sbtTemplate s)"
| "guarding_pause_flag (DeactivateTemplate templateId) s = tst_paused (sbtTemplate s)"
| "guarding_pause_flag (ReactivateTemplate templateId) s = tst_paused (sbtTemplate s)"
| "guarding_pause_flag (CreateSession templateId maxMints durationInSeconds title) s =
     sst_paused (sbtSession s)"
| "guarding_pause_flag (EndSession sessionId) s = sst_paused (sbtSession s)"
| "guarding_pause_flag (MintFromTemplate to templateId) s = tok_paused (sbtToken s)"
| "guarding_pause_flag (MintFromSession to sessionId) s = tok_paused (sbtToken s)"
| "guarding_pause_flag (BatchMintFromSession recipients sessionId) s = tok_paused (sbtToken s)"
| "guarding_pause_flag (ClaimFromSession sessionId) s = tok_paused (sbtToken s)"
| "guarding_pause_flag (RevokeSBT tokenId) s = tok_paused (sbtToken s)"
| "guarding_pause_flag RegistryPause s = False"
| "guarding_pause_flag RegistryUnpause s = False"
| "guarding_pause_flag TemplatePause s = False"
| "guarding_pause_flag TemplateUnpause s = False"
| "guarding_pause_flag SessionPause s = False"
| "guarding_pause_flag SessionUnpause s = False"
| "guarding_pause_flag TokenPause s = False"
| "guarding_pause_flag TokenUnpause s = False"
| "guarding_pause_flag (IncrementMintCount sessionId) s = False"
| "guarding_pause_flag (SetSBTTokenContract a) s = False"
| "guarding_pause_flag (RegistryTransferOwnership newOwner) s = False"
| "guarding_pause_flag RegistryRenounceOwnership s = False"
| "guarding_pause_flag (TemplateTransferOwnership newOwner) s = False"
| "guarding_pause_flag TemplateRenounceOwnership s = False"
| "guarding_pause_flag (SessionTransferOwnership newOwner) s = False"
| "guarding_pause_flag SessionRenounceOwnership s = False"
| "guarding_pause_flag (TokenTransferOwnership newOwner) s = False"
| "guarding_pause_flag TokenRenounceOwnership s = False"

text \<open>
  The conditions under which the mint paths go through. \<open>token_slot_free\<close>: the next
  token id does not overflow, the recipient is not the zero address, the id has no owner
  yet and the recipient passes the receiver check. \<open>session_mint_checks\<close>: what a mint
  through a session needs of the recipient \<open>to\<close>, apart from who calls.
  \<open>template_mint_checks\<close>: what a direct mint from a template needs.
\<close>

definition token_slot_free :: "chain \<Rightarrow> address \<Rightarrow> address \<Rightarrow> SBTToken \<Rightarrow> bool" where
  "token_slot_free ch operator to t =
     (nextTokenId t < uint256_max \<and> to \<noteq> 0 \<and> owners t (nextTokenId t) = 0
      \<and> onERC721Received ch operator to (nextTokenId t))"

definition session_mint_checks :: "chain \<Rightarrow> txenv \<Rightarrow> address \<Rightarrow> bytes32 \<Rightarrow> system \<Rightarrow> bool" where
  "session_mint_checks ch e to sessionId s =
     (\<not> tok_paused (sbtToken s)
      \<and> isSessionClaimable (sbtSession s) (block_timestamp e) sessionId
      \<and> \<not> hasTokenFromSession (sbtToken s) to sessionId
      \<and> templateExists (sbtTemplate s) (ses_templateId (sessions (sbtSession s) sessionId))
      \<and> token_slot_free ch (msg_sender e) to (sbtToken s)
      \<and> sbtTokenContract (sbtSession s) = token_address ch
      \<and> ses_currentMints (sessions (sbtSession s) sessionId) < uint256_max)"

definition template_mint_checks :: "chain \<Rightarrow> txenv \<Rightarrow> address \<Rightarrow> uint256 \<Rightarrow> system \<Rightarrow> bool" where
  "template_mint_checks ch e to templateId s =
     (isAuthorizedIssuer (issuerRegistry s) (msg_sender e)
      \<and> \<not> tok_paused (sbtToken s)
      \<and> isTemplateActive (sbtTemplate s) templateId
      \<and> \<not> hasTokenFromTemplate (sbtToken s) to templateId
      \<and> tpl_issuer (templates (sbtTemplate s) templateId) = msg_sender e
      \<and> token_slot_free ch (msg_sender e) to (sbtToken s))"


text \<open>An example state: one template, and one open session on it with two slots.\<close>

definition example_session_open :: system where
  "example_session_open =
     run example_chain
       [(call_by 1 5, CreateTemplate ''Workshop'' ''Attended''),
        (call_by 1 6, CreateSession 1 2 3600 ''Day 1'')]
       example_deployed"

text \<open>The record that a mint stores for the new token.\<close>

definition minted_data :: "txenv \<Rightarrow> address \<Rightarrow> Template \<Rightarrow> uint256 \<Rightarrow> bytes32 \<Rightarrow> SBTData" where
  "minted_data e issuer template templateId sessionId =
     \<lparr>sbt_name = tpl_name template, sbt_description = tpl_description template,
      sbt_issuer = issuer, sbt_mintedAt = block_timestamp e,
      sbt_templateId = templateId, sbt_sessionId = sessionId, sbt_revoked = False\<rparr>"

text \<open>The example session after account 7 has claimed: one of its two slots is left.\<close>

definition example_one_claimed :: system where
  "example_one_claimed =
     transact example_chain (call_by 7 8) (ClaimFromSession 1) example_session_open"

text \<open>
  The session manager accepts \<open>incrementMintCount\<close> from the token contract only, and no
  session has more mints than its maximum.
\<close>

definition mints_bounded :: "chain \<Rightarrow> system \<Rightarrow> bool" where
  "mints_bounded ch s =
     (sbtTokenContract (sbtSession s) = token_address ch
      \<and> (\<forall>sid. ses_currentMints (sessions (sbtSession s) sid)
                   \<le> ses_maxMints (sessions (sbtSession s) sid)))"

text \<open>
  The example session after four claims: account 7 claims, claims again (rejected as a
  duplicate), account 8 claims, account 9 claims (rejected, the session is full).
\<close>

definition example_session_full :: system where
  "example_session_full =
     run example_chain
       [(call_by 1 5, CreateTemplate ''Workshop'' ''Attended''),
        (call_by 1 6, CreateSession 1 2 3600 ''Day 1''),
        (call_by 7 8, ClaimFromSession 1),
        (call_by 7 9, ClaimFromSession 1),
        (call_by 8 10, ClaimFromSession 1),
        (call_by 9 11, ClaimFromSession 1)]
       example_deployed"

text \<open>
  \<open>holder\<close> owns token \<open>tokenId\<close>, the token is not revoked and it was minted from
  template \<open>templateId\<close>.
\<close>

definition holds_live_token :: "SBTToken \<Rightarrow> address \<Rightarrow> uint256 \<Rightarrow> uint256 \<Rightarrow> bool" where
  "holds_live_token t holder tokenId templateId =
     (holder \<noteq> 0 \<and> owners t tokenId = holder \<and> \<not> sbt_revoked (sbtData t tokenId)
      \<and> sbt_templateId (sbtData t tokenId) = templateId)"

text \<open>
  In the example state with the open session: the issuer mints account 7 a token directly
  from template 1, then account 7 claims from the session on the same template.
\<close>

definition example_two_tokens :: system where
  "example_two_tokens =
     run example_chain
       [(call_by 1 7, MintFromTemplate 7 1),
        (call_by 7 8, ClaimFromSession 1)]
       example_session_open"

text \<open>
  In the example state with the open session: the issuer mints account 7 a token from
  template 1 and afterwards renames the template.
\<close>

definition example_renamed :: system where
  "example_renamed =
     run example_chain
       [(call_by 1 7, MintFromTemplate 7 1),
        (call_by 1 8, UpdateTemplate 1 ''Seminar'' ''Spoke'')]
       example_session_open"

text \<open>The example state with the open session, after the issuer deactivates template 1.\<close>

definition example_deactivated :: system where
  "example_deactivated =
     transact example_chain (call_by 1 7) (DeactivateTemplate 1) example_session_open"

text \<open>
  What a mint through a session needs besides the pause flag and the recipient's session
  marker: the session is claimable, its template exists, the mint itself can go through
  and the session manager accepts the increment.
\<close>

definition session_has_room :: "chain \<Rightarrow> txenv \<Rightarrow> address \<Rightarrow> bytes32 \<Rightarrow> system \<Rightarrow> bool" where
  "session_has_room ch e to sessionId s =
     (isSessionClaimable (sbtSession s) (block_timestamp e) sessionId
      \<and> templateExists (sbtTemplate s) (ses_templateId (sessions (sbtSession s) sessionId))
      \<and> token_slot_free ch (msg_sender e) to (sbtToken s)
      \<and> sbtTokenContract (sbtSession s) = token_address ch
      \<and> ses_currentMints (sessions (sbtSession s) sessionId) < uint256_max)"

text \<open>
  A session with a single slot: account 7 claims it, then the issuer revokes the token.
\<close>

definition example_single_slot_revoked :: system where
  "example_single_slot_revoked =
     run example_chain
       [(call_by 1 5, CreateTemplate ''Workshop'' ''Attended''),
        (call_by 1 6, CreateSession 1 1 3600 ''Day 1''),
        (call_by 7 8, ClaimFromSession 1),
        (call_by 1 9, RevokeSBT 1)]
       example_deployed"

text \<open>The two-slot example session after account 7's token has been revoked by the issuer.\<close>

definition example_revoked :: system where
  "example_revoked = transact example_chain (call_by 1 9) (RevokeSBT 1) example_one_claimed"

text \<open>
  After deployment by account 1: account 1 transfers the registry's ownership to account
  2, and account 2 removes account 1 from the issuers.
\<close>

definition example_admin_removed :: system where
  "example_admin_removed =
     run example_chain
       [(call_by 1 5, RegistryTransferOwnership 2),
        (call_by 2 6, RemoveIssuer 1)]
       example_deployed"

text \<open>
  The example session filled by accounts 7 and 8; then the session manager's owner points
  \<open>sbtTokenContract\<close> at account 9, and account 9 calls \<open>incrementMintCount\<close>.
\<close>

definition example_repointed :: system where
  "example_repointed =
     run example_chain
       [(call_by 1 5, CreateTemplate ''Workshop'' ''Attended''),
        (call_by 1 6, CreateSession 1 2 3600 ''Day 1''),
        (call_by 7 8, ClaimFromSession 1),
        (call_by 8 10, ClaimFromSession 1),
        (call_by 1 12, SetSBTTokenContract 9),
        (call_by 9 13, IncrementMintCount 1)]
       example_deployed"

text \<open>The four mint paths.\<close>

fun is_mint_call :: "call \<Rightarrow> bool" where
  "is_mint_call (MintFromTemplate to templateId) = True"
| "is_mint_call (MintFromSession to sessionId) = True"
| "is_mint_call (BatchMintFromSession recipients sessionId) = True"
| "is_mint_call (ClaimFromSession sessionId) = True"
| "is_mint_call c = False"

section \<open>Properties\<close>

subsection \<open>Session claimability\<close>

text \<open>
  C4. \<open>isSessionClaimable\<close> is a total boolean query: it answers true exactly when the
  session exists (its issuer field is not the zero address), its active flag is set, the
  current time is at most its end timestamp and its current mint count is strictly below
  its maximum; for every other session id, known or unknown, it answers false and never
  reverts.
\<close>

theorem isSessionClaimable_iff:
  "isSessionClaimable ss now sessionId =
     (ses_issuer (sessions ss sessionId) \<noteq> 0
      \<and> ses_active (sessions ss sessionId)
      \<and> now \<le> ses_endTimestamp (sessions ss sessionId)
      \<and> ses_currentMints (sessions ss sessionId) < ses_maxMints (sessions ss sessionId))"
  by (simp add: isSessionClaimable_def not_less not_le)

subsection \<open>What each entry point leaves alone\<close>

lemma mintFromTemplate_frame:
  "mintFromTemplate ch e to tid s = Inr s' \<Longrightarrow>
     issuerRegistry s' = issuerRegistry s \<and> sbtTemplate s' = sbtTemplate s \<and> sbtSession s' = sbtSession s"
  by (auto simp: mintFromTemplate_def Let_def split: if_splits sum.splits)

lemma mintFromSession_frame:
  "mintFromSession ch e to sid s = Inr s' \<Longrightarrow>
     issuerRegistry s' = issuerRegistry s \<and> sbtTemplate s' = sbtTemplate s"
  by (auto simp: mintFromSession_def Let_def split: if_splits sum.splits)

lemma claimFromSession_frame:
  "claimFromSession ch e sid s = Inr s' \<Longrightarrow>
     issuerRegistry s' = issuerRegistry s \<and> sbtTemplate s' = sbtTemplate s"
  by (auto simp: claimFromSession_def Let_def split: if_splits sum.splits)

lemma batchMintFromSession_frame:
  "batchMintFromSession ch e rs sid s = Inr s' \<Longrightarrow>
     issuerRegistry s' = issuerRegistry s \<and> sbtTemplate s' = sbtTemplate s"
  by (auto simp: batchMintFromSession_def Let_def split: if_splits sum.splits prod.splits)

lemma exec_owner_authorized:
  assumes "exec ch e c s = Inr s'" and "owner_authorized d s" and "keeps_registry_owner e c"
  shows "owner_authorized d s'"
proof (cases c)
  case (AddIssuer a n org)
  with assms show ?thesis
    by (auto simp: owner_authorized_def in_registry_def addIssuer_def addIssuerInternal_def
          isAuthorizedIssuer_def Let_def split: if_splits sum.splits)
next
  case (RemoveIssuer a)
  with assms show ?thesis
    by (auto simp: owner_authorized_def in_registry_def removeIssuer_def
          isAuthorizedIssuer_def split: if_splits sum.splits)
next
  case (UpdateIssuer a n org)
  with assms show ?thesis
    by (auto simp: owner_authorized_def in_registry_def updateIssuer_def
          isAuthorizedIssuer_def split: if_splits sum.splits)
next
  case RegistryPause
  with assms show ?thesis
    by (auto simp: owner_authorized_def in_registry_def reg_pause_def
          isAuthorizedIssuer_def split: if_splits sum.splits)
next
  case RegistryUnpause
  with assms show ?thesis
    by (auto simp: owner_authorized_def in_registry_def reg_unpause_def
          isAuthorizedIssuer_def split: if_splits sum.splits)
next
  case (MintFromTemplate to tid)
  with assms show ?thesis
    using mintFromTemplate_frame[of ch e to tid s s'] by (simp add: owner_authorized_def)
next
  case (MintFromSession to sid)
  with assms show ?thesis
    using mintFromSession_frame[of ch e to sid s s'] by (simp add: owner_authorized_def)
next
  case (BatchMintFromSession rs sid)
  with assms show ?thesis
    using batchMintFromSession_frame[of ch e rs sid s s'] by (simp add: owner_authorized_def)
next
  case (ClaimFromSession sid)
  with assms show ?thesis
    using claimFromSession_frame[of ch e sid s s'] by (simp add: owner_authorized_def)
qed (use assms in \<open>auto simp: owner_authorized_def in_template_def in_session_def in_token_def
        split: sum.splits prod.splits\<close>)

lemma transact_owner_authorized:
  "owner_authorized d s \<Longrightarrow> keeps_registry_owner e c \<Longrightarrow> owner_authorized d (transact ch e c s)"
  by (auto simp: transact_def split: sum.splits dest: exec_owner_authorized)

lemma deploy_owner_authorized:
  "deploy ch d now = Inr s \<Longrightarrow> owner_authorized d s"
  by (auto simp: deploy_def IssuerRegistry_constructor_def addIssuerInternal_def owner_authorized_def
        isAuthorizedIssuer_def Let_def split: if_splits sum.splits)

lemma reachable_while_owner_authorized:
  "reachable_while ch keeps_registry_owner d s \<Longrightarrow> owner_authorized d s"
  by (induction rule: reachable_while.induct)
     (auto intro: deploy_owner_authorized transact_owner_authorized)

text \<open>No single transaction, the ownership entry points included, deauthorizes the current owner.\<close>

lemma transact_owner_still_issuer:
  assumes "owner_authorized d s"
  shows "isAuthorizedIssuer (issuerRegistry (transact ch e c s)) d"
proof (cases "keeps_registry_owner e c")
  case True
  from transact_owner_authorized[OF assms True] show ?thesis
    by (simp add: owner_authorized_def)
next
  case False
  then consider a where "c = RegistryTransferOwnership a" | "c = RegistryRenounceOwnership"
    by (cases c) simp_all
  then show ?thesis
  proof cases
    case 1
    with assms show ?thesis
      by (auto simp: transact_def in_registry_def reg_transferOwnership_def owner_authorized_def
            isAuthorizedIssuer_def split: sum.splits if_splits)
  next
    case 2
    with assms show ?thesis
      by (auto simp: transact_def in_registry_def reg_renounceOwnership_def owner_authorized_def
            isAuthorizedIssuer_def split: sum.splits if_splits)
  qed
qed

subsection \<open>Reachable states and worked examples\<close>

lemma reachable_run:
  "reachable ch d s \<Longrightarrow> list_all (\<lambda>(e, c). external_call ch e c) tr \<Longrightarrow> reachable ch d (run ch tr s)"
proof (induction tr arbitrary: s)
  case Nil
  then show ?case by simp
next
  case (Cons x tr)
  obtain e c where x: "x = (e, c)" by (cases x)
  from Cons.prems x have "reachable ch d (transact ch e c s)"
    by (auto intro: reachable_transact)
  with Cons.IH Cons.prems x show ?case by simp
qed

lemma reachable_while_run:
  "reachable_while ch permitted d s
     \<Longrightarrow> list_all (\<lambda>(e, c). external_call ch e c \<and> permitted e c) tr
     \<Longrightarrow> reachable_while ch permitted d (run ch tr s)"
proof (induction tr arbitrary: s)
  case Nil
  then show ?case by simp
next
  case (Cons x tr)
  obtain e c where x: "x = (e, c)" by (cases x)
  from Cons.prems x have "reachable_while ch permitted d (transact ch e c s)"
    by (auto intro: reachable_while_transact)
  with Cons.IH Cons.prems x show ?case by simp
qed

lemma deploy_example: "deploy example_chain 1 0 = Inr example_deployed"
  by (simp add: example_deployed_def deploy_def IssuerRegistry_constructor_def
        SBTToken_constructor_def setSBTTokenContract_def SBTSession_constructor_def example_chain_def)

lemma reachable_example_run:
  "list_all (\<lambda>(e, c). external_call example_chain e c) tr
     \<Longrightarrow> reachable example_chain 1 (run example_chain tr example_deployed)"
  by (rule reachable_run[OF reachable_deploy[OF deploy_example]])

lemma reachable_while_example_run:
  "list_all (\<lambda>(e, c). external_call example_chain e c \<and> permitted e c) tr
     \<Longrightarrow> reachable_while example_chain permitted 1 (run example_chain tr example_deployed)"
  by (rule reachable_while_run[OF reachable_while_deploy[OF deploy_example]])

lemmas example_defs =
  example_deployed_def deploy_def IssuerRegistry_constructor_def SBTToken_constructor_def
  setSBTTokenContract_def SBTSession_constructor_def SBTTemplate_constructor_def
  addIssuerInternal_def example_chain_def call_by_def transact_def
  in_registry_def in_template_def in_session_def in_token_def external_call_def
  isAuthorizedIssuer_def uint256_max_def Let_def

text \<open>
  C7, as the claim states it, fails in its middle part: the bootstrap administrator can be
  deauthorized. \<open>removeIssuer\<close> protects whoever is the registry's owner at the time of the
  call, and the registry is \<open>Ownable\<close>: the deployer (account 1) transfers ownership to
  account 2, and account 2 then removes account 1. The resulting state is reachable, its
  owner is account 2, and account 1 is no longer an authorized issuer.
\<close>

theorem bootstrap_admin_removed_counterexample:
  "reachable example_chain 1 example_admin_removed
   \<and> reg_owner (issuerRegistry example_deployed) = 1
   \<and> isAuthorizedIssuer (issuerRegistry example_deployed) 1
   \<and> reg_owner (issuerRegistry example_admin_removed) = 2
   \<and> \<not> isAuthorizedIssuer (issuerRegistry example_admin_removed) 1"
proof -
  have "reachable example_chain 1 example_admin_removed"
    unfolding example_admin_removed_def
    by (rule reachable_example_run) (simp add: external_call_def)
  moreover have "reg_owner (issuerRegistry example_deployed) = 1"
    "isAuthorizedIssuer (issuerRegistry example_deployed) 1"
    "reg_owner (issuerRegistry example_admin_removed) = 2"
    "\<not> isAuthorizedIssuer (issuerRegistry example_admin_removed) 1"
    by (simp_all add: example_admin_removed_def example_defs reg_transferOwnership_def
          removeIssuer_def)
  ultimately show ?thesis by simp
qed

text \<open>
  C7, amended. \<open>removeIssuer\<close> fails on an identity that is not currently authorized and
  fails when the target is the registry's current owner; when it succeeds the target is no
  longer an authorized issuer. No single transaction deauthorizes the account that owns
  the registry at that moment. So the bootstrap administrator is protected for as long as
  it owns the registry: in every state reached without a transfer or renouncement of the
  registry's ownership, the deployer is still the owner and still an authorized issuer,
  and removing the deployer fails whoever asks.
\<close>

theorem removeIssuer_protects_owner:
  "(\<not> isAuthorizedIssuer r issuer \<longrightarrow> (\<exists>err. removeIssuer sender issuer r = Inl err))
   \<and> (\<exists>err. removeIssuer sender (reg_owner r) r = Inl err)
   \<and> (\<forall>r'. removeIssuer sender issuer r = Inr r' \<longrightarrow> \<not> isAuthorizedIssuer r' issuer)
   \<and> (isAuthorizedIssuer (issuerRegistry s0) (reg_owner (issuerRegistry s0)) \<longrightarrow>
        isAuthorizedIssuer (issuerRegistry (transact ch e0 c0 s0)) (reg_owner (issuerRegistry s0)))
   \<and> (reachable_while ch keeps_registry_owner deployer s \<longrightarrow>
          reg_owner (issuerRegistry s) = deployer
        \<and> isAuthorizedIssuer (issuerRegistry s) deployer
        \<and> (\<forall>e. \<exists>err. exec ch e (RemoveIssuer deployer) s = Inl err))"
proof (intro conjI impI allI)
  assume "\<not> isAuthorizedIssuer r issuer"
  then show "\<exists>err. removeIssuer sender issuer r = Inl err"
    by (simp add: removeIssuer_def isAuthorizedIssuer_def)
next
  show "\<exists>err. removeIssuer sender (reg_owner r) r = Inl err"
    by (simp add: removeIssuer_def)
next
  fix r' assume "removeIssuer sender issuer r = Inr r'"
  then show "\<not> isAuthorizedIssuer r' issuer"
    by (auto simp: removeIssuer_def isAuthorizedIssuer_def split: if_splits)
next
  assume "isAuthorizedIssuer (issuerRegistry s0) (reg_owner (issuerRegistry s0))"
  then have "owner_authorized (reg_owner (issuerRegistry s0)) s0"
    by (simp add: owner_authorized_def)
  then show "isAuthorizedIssuer (issuerRegistry (transact ch e0 c0 s0))
      (reg_owner (issuerRegistry s0))"
    by (rule transact_owner_still_issuer)
next
  assume r: "reachable_while ch keeps_registry_owner deployer s"
  from reachable_while_owner_authorized[OF r]
  show "reg_owner (issuerRegistry s) = deployer"
    and "isAuthorizedIssuer (issuerRegistry s) deployer"
    by (simp_all add: owner_authorized_def)
next
  fix e :: txenv
  assume r: "reachable_while ch keeps_registry_owner deployer s"
  from reachable_while_owner_authorized[OF r]
  show "\<exists>err. exec ch e (RemoveIssuer deployer) s = Inl err"
    by (simp add: owner_authorized_def in_registry_def removeIssuer_def)
qed

theorem removeIssuer_protects_owner_witness:
  "\<not> isAuthorizedIssuer (issuerRegistry example_deployed) 2
   \<and> removeIssuer 1 2 (issuerRegistry example_deployed) = Inl Reg_IssuerNotFound
   \<and> removeIssuer 1 1 (issuerRegistry example_deployed) = Inl Reg_CannotRemoveOwner
   \<and> isAuthorizedIssuer (issuerRegistry
        (run example_chain [(call_by 1 5, AddIssuer 2 ''Alice'' ''Org'')] example_deployed)) 2
   \<and> \<not> isAuthorizedIssuer (issuerRegistry
        (run example_chain [(call_by 1 5, AddIssuer 2 ''Alice'' ''Org''),
                            (call_by 1 6, RemoveIssuer 2)] example_deployed)) 2
   \<and> reachable_while example_chain keeps_registry_owner 1
        (run example_chain [(call_by 1 5, AddIssuer 2 ''Alice'' ''Org''),
                            (call_by 1 6, RemoveIssuer 2)] example_deployed)
   \<and> isAuthorizedIssuer (issuerRegistry
        (run example_chain [(call_by 1 5, AddIssuer 2 ''Alice'' ''Org''),
                            (call_by 1 6, RemoveIssuer 2)] example_deployed)) 1
   \<and> isAuthorizedIssuer (issuerRegistry example_deployed) (reg_owner (issuerRegistry example_deployed))
   \<and> isAuthorizedIssuer (issuerRegistry
        (transact example_chain (call_by 1 5) (RegistryTransferOwnership 2) example_deployed)) 1"
proof -
  let ?tr = "[(call_by 1 5, AddIssuer 2 ''Alice'' ''Org''), (call_by 1 6, RemoveIssuer 2)]"
  have reach: "reachable_while example_chain keeps_registry_owner 1
      (run example_chain ?tr example_deployed)"
    by (rule reachable_while_example_run) (simp add: external_call_def)
  have na: "\<not> isAuthorizedIssuer (issuerRegistry example_deployed) 2"
    by (simp add: example_defs IssuerInfo_zero_def)
  have ok: "removeIssuer 1 2 (issuerRegistry
        (run example_chain [(call_by 1 5, AddIssuer 2 ''Alice'' ''Org'')] example_deployed))
      = Inr (issuerRegistry (run example_chain ?tr example_deployed))"
    by (simp add: example_defs addIssuer_def removeIssuer_def IssuerInfo_zero_def)
  have own: "reg_owner (issuerRegistry example_deployed) = 1"
    and oa: "isAuthorizedIssuer (issuerRegistry example_deployed)
        (reg_owner (issuerRegistry example_deployed))"
    by (simp_all add: example_defs)
  note th = removeIssuer_protects_owner[of "issuerRegistry example_deployed" 2 1
      example_deployed example_chain "call_by 1 5" "RegistryTransferOwnership 2"
      1 "run example_chain ?tr example_deployed"]
  note th2 = removeIssuer_protects_owner[of "issuerRegistry
        (run example_chain [(call_by 1 5, AddIssuer 2 ''Alice'' ''Org'')] example_deployed)" 2 1
      example_deployed example_chain "call_by 1 5" "RegistryTransferOwnership 2"
      1 "run example_chain ?tr example_deployed"]
  from th na reach have a: "isAuthorizedIssuer (issuerRegistry (run example_chain ?tr example_deployed)) 1"
    by blast
  from th2 ok have b: "\<not> isAuthorizedIssuer (issuerRegistry (run example_chain ?tr example_deployed)) 2"
    by blast
  from th oa have "isAuthorizedIssuer (issuerRegistry
        (transact example_chain (call_by 1 5) (RegistryTransferOwnership 2) example_deployed))
        (reg_owner (issuerRegistry example_deployed))"
    by blast
  then have d: "isAuthorizedIssuer (issuerRegistry
        (transact example_chain (call_by 1 5) (RegistryTransferOwnership 2) example_deployed)) 1"
    by (simp only: own)
  have c: "removeIssuer 1 2 (issuerRegistry example_deployed) = Inl Reg_IssuerNotFound"
    "removeIssuer 1 1 (issuerRegistry example_deployed) = Inl Reg_CannotRemoveOwner"
    "isAuthorizedIssuer (issuerRegistry
        (run example_chain [(call_by 1 5, AddIssuer 2 ''Alice'' ''Org'')] example_deployed)) 2"
    by (simp_all add: example_defs addIssuer_def removeIssuer_def IssuerInfo_zero_def)
  from na reach a b c oa d show ?thesis by blast
qed

subsection \<open>Pausing\<close>

text \<open>
  C9, as the claim states it, fails: the registry's pause flag gates the registry only.
  After the owner pauses the registry, the owner (an authorized issuer) still creates a
  template: the call succeeds and the template counter goes from 0 to 1.
\<close>

theorem registry_pause_not_global_counterexample:
  "reg_paused (issuerRegistry (run example_chain [(call_by 1 5, RegistryPause)] example_deployed))
   \<and> templateIdCounter (sbtTemplate
         (run example_chain [(call_by 1 5, RegistryPause)] example_deployed)) = 0
   \<and> \<not> isl (exec example_chain (call_by 1 6) (CreateTemplate ''Workshop'' ''Attended'')
         (run example_chain [(call_by 1 5, RegistryPause)] example_deployed))
   \<and> templateIdCounter (sbtTemplate
         (run example_chain [(call_by 1 5, RegistryPause),
                             (call_by 1 6, CreateTemplate ''Workshop'' ''Attended'')]
            example_deployed)) = 1"
  by (simp add: example_defs reg_pause_def createTemplate_def)

text \<open>
  C9, amended. Each contract has its own owner-controlled pause flag, and while a
  contract's own flag is set none of its \<open>whenNotPaused\<close> entry points succeeds:
  \<open>addIssuer\<close>, \<open>removeIssuer\<close>, \<open>updateIssuer\<close> in the registry; \<open>createTemplate\<close>,
  \<open>updateTemplate\<close>, \<open>deactivateTemplate\<close>, \<open>reactivateTemplate\<close> in the template store;
  \<open>createSession\<close>, \<open>endSession\<close> in the session manager; the four mint paths and
  \<open>revokeSBT\<close> in the token ledger.
\<close>

theorem paused_contract_rejects:
  assumes "guarding_pause_flag c s"
  shows "\<exists>err. exec ch e c s = Inl err"
proof (cases c)
  case (AddIssuer issuer name organization)
  with assms show ?thesis by (simp add: in_registry_def addIssuer_def)
next
  case (RemoveIssuer issuer)
  with assms show ?thesis by (simp add: in_registry_def removeIssuer_def)
next
  case (UpdateIssuer issuer name organization)
  with assms show ?thesis by (simp add: in_registry_def updateIssuer_def)
next
  case (CreateTemplate name description)
  with assms show ?thesis by (simp add: in_template_def createTemplate_def)
next
  case (UpdateTemplate templateId name description)
  with assms show ?thesis by (simp add: in_template_def updateTemplate_def)
next
  case (DeactivateTemplate templateId)
  with assms show ?thesis by (simp add: in_template_def deactivateTemplate_def)
next
  case (ReactivateTemplate templateId)
  with assms show ?thesis by (simp add: in_template_def reactivateTemplate_def)
next
  case (CreateSession templateId maxMints durationInSeconds title)
  with assms show ?thesis by (simp add: in_session_def createSession_def)
next
  case (EndSession sessionId)
  with assms show ?thesis by (simp add: in_session_def endSession_def)
next
  case (MintFromTemplate to templateId)
  with assms show ?thesis by (simp add: mintFromTemplate_def Let_def)
next
  case (MintFromSession to sessionId)
  with assms show ?thesis by (simp add: mintFromSession_def Let_def)
next
  case (BatchMintFromSession recipients sessionId)
  with assms show ?thesis by (simp add: batchMintFromSession_def Let_def)
next
  case (ClaimFromSession sessionId)
  with assms show ?thesis by (simp add: claimFromSession_def Let_def)
next
  case (RevokeSBT tokenId)
  with assms show ?thesis by (simp add: in_token_def revokeSBT_def)
qed (use assms in simp_all)

theorem paused_contract_rejects_witness:
  "guarding_pause_flag (ClaimFromSession 1)
     (run example_chain [(call_by 1 5, TokenPause)] example_deployed)
   \<and> exec example_chain (call_by 7 6) (ClaimFromSession 1)
         (run example_chain [(call_by 1 5, TokenPause)] example_deployed) = Inl EnforcedPause"
proof -
  have g: "guarding_pause_flag (ClaimFromSession 1)
     (run example_chain [(call_by 1 5, TokenPause)] example_deployed)"
    by (simp add: example_defs tok_pause_def)
  from paused_contract_rejects[OF g, of example_chain "call_by 7 6"] g
  show ?thesis by (simp add: claimFromSession_def Let_def)
qed

subsection \<open>When a mint succeeds\<close>

lemma safeMint_Inr_iff:
  "(safeMint ch operator to tokenId t = Inr t') =
     (to \<noteq> 0 \<and> owners t tokenId = 0 \<and> onERC721Received ch operator to tokenId
      \<and> t' = t\<lparr>owners := (owners t)(tokenId := to)\<rparr>)"
  by (auto simp: safeMint_def token_update_def Let_def split: sum.splits prod.splits)

lemma isSessionClaimable_exists:
  "isSessionClaimable ss now sid \<Longrightarrow> ses_issuer (sessions ss sid) \<noteq> 0"
  by (simp add: isSessionClaimable_def split: if_splits)

lemma isTemplateActive_exists:
  "isTemplateActive t k \<Longrightarrow> templateExists t k"
  by (auto simp: isTemplateActive_def templateExists_def split: if_splits)

lemma claimFromSession_succeeds_iff:
  "(\<not> isl (claimFromSession ch e sid s)) = session_mint_checks ch e (msg_sender e) sid s"
  by (auto simp: claimFromSession_def session_mint_checks_def token_slot_free_def Let_def
        getSession_def getTemplate_def incrementMintCount_def safeMint_def token_update_def
        dest: isSessionClaimable_exists
        split: sum.splits prod.splits if_splits)

lemma mintFromSession_succeeds_iff:
  "(\<not> isl (mintFromSession ch e to sid s)) =
     (isAuthorizedIssuer (issuerRegistry s) (msg_sender e)
      \<and> ses_issuer (sessions (sbtSession s) sid) = msg_sender e
      \<and> session_mint_checks ch e to sid s)"
  by (auto simp: mintFromSession_def session_mint_checks_def token_slot_free_def Let_def
        getSession_def getTemplate_def incrementMintCount_def safeMint_def token_update_def
        dest: isSessionClaimable_exists
        split: sum.splits prod.splits if_splits)

lemma mintFromTemplate_succeeds_iff:
  "(\<not> isl (mintFromTemplate ch e to k s)) = template_mint_checks ch e to k s"
  by (auto simp: mintFromTemplate_def template_mint_checks_def token_slot_free_def Let_def
        getTemplate_def safeMint_def token_update_def
        dest: isTemplateActive_exists
        split: sum.splits prod.splits if_splits)

lemma claimFromSession_registry_free:
  "claimFromSession ch e sid (s\<lparr>issuerRegistry := r'\<rparr>) =
     map_sum id (\<lambda>x. x\<lparr>issuerRegistry := r'\<rparr>) (claimFromSession ch e sid s)"
  by (simp add: claimFromSession_def Let_def split: sum.splits)

lemma claimFromSession_result:
  assumes "claimFromSession ch e sid s = Inr s'"
  shows "owners (sbtToken s') (nextTokenId (sbtToken s)) = msg_sender e"
    and "sbtData (sbtToken s') (nextTokenId (sbtToken s)) =
           \<lparr>sbt_name = tpl_name (templates (sbtTemplate s) (ses_templateId (sessions (sbtSession s) sid))),
            sbt_description = tpl_description (templates (sbtTemplate s) (ses_templateId (sessions (sbtSession s) sid))),
            sbt_issuer = ses_issuer (sessions (sbtSession s) sid),
            sbt_mintedAt = block_timestamp e,
            sbt_templateId = ses_templateId (sessions (sbtSession s) sid),
            sbt_sessionId = sid, sbt_revoked = False\<rparr>"
    and "ses_currentMints (sessions (sbtSession s') sid) =
           ses_currentMints (sessions (sbtSession s) sid) + 1"
  using assms
  by (auto simp: claimFromSession_def Let_def getSession_def getTemplate_def
        incrementMintCount_def safeMint_Inr_iff split: sum.splits if_splits)

text \<open>
  C8. \<open>claimFromSession\<close> asks for no issuer authorization: it succeeds exactly when the
  session checks hold for the caller as recipient (token contract not paused, session
  claimable, caller holds no token of this session, and the mint itself can go through),
  whatever the registry says about the caller; its result does not depend on the
  registry at all. \<open>mintFromSession\<close> succeeds exactly when the same checks hold for its
  recipient and, in addition, the caller is an authorized issuer and the session's
  issuer. The token a successful claim creates is owned by the caller and its recorded
  issuer is the session's issuer.
\<close>

theorem claimFromSession_self_service:
  "(\<not> isl (claimFromSession ch e sid s)) = session_mint_checks ch e (msg_sender e) sid s
   \<and> (\<not> isl (mintFromSession ch e to sid s)) =
       (isAuthorizedIssuer (issuerRegistry s) (msg_sender e)
        \<and> ses_issuer (sessions (sbtSession s) sid) = msg_sender e
        \<and> session_mint_checks ch e to sid s)
   \<and> claimFromSession ch e sid (s\<lparr>issuerRegistry := r'\<rparr>) =
       map_sum id (\<lambda>x. x\<lparr>issuerRegistry := r'\<rparr>) (claimFromSession ch e sid s)
   \<and> (\<forall>s'. claimFromSession ch e sid s = Inr s' \<longrightarrow>
          owners (sbtToken s') (nextTokenId (sbtToken s)) = msg_sender e
        \<and> sbt_issuer (sbtData (sbtToken s') (nextTokenId (sbtToken s))) =
            ses_issuer (sessions (sbtSession s) sid))"
  using claimFromSession_succeeds_iff[of ch e sid s] mintFromSession_succeeds_iff[of ch e to sid s]
    claimFromSession_registry_free[of ch e sid r' s]
    claimFromSession_result(1,2)[of ch e sid s]
  by simp



lemmas run_defs =
  example_defs createTemplate_def createSession_def isTemplateActive_def getTemplate_def
  templateExists_def claimFromSession_def mintFromSession_def mintFromTemplate_def
  isSessionClaimable_def getSession_def safeMint_def token_update_def incrementMintCount_def
  revokeSBT_def IssuerInfo_zero_def Template_zero_def Session_zero_def SBTData_zero_def

theorem claimFromSession_self_service_witness:
  "\<not> isAuthorizedIssuer (issuerRegistry example_session_open) 7
   \<and> session_mint_checks example_chain (call_by 7 8) 7 1 example_session_open
   \<and> \<not> isl (claimFromSession example_chain (call_by 7 8) 1 example_session_open)
   \<and> owners (sbtToken (transact example_chain (call_by 7 8) (ClaimFromSession 1)
                          example_session_open)) 1 = 7
   \<and> sbt_issuer (sbtData (sbtToken (transact example_chain (call_by 7 8) (ClaimFromSession 1)
                          example_session_open)) 1) = 1"
proof -
  note th = claimFromSession_self_service[of example_chain "call_by 7 8" 1 example_session_open]
  have na: "\<not> isAuthorizedIssuer (issuerRegistry example_session_open) 7"
    by (simp add: example_session_open_def run_defs)
  have chk: "session_mint_checks example_chain (call_by 7 8) 7 1 example_session_open"
    by (simp add: example_session_open_def session_mint_checks_def token_slot_free_def run_defs)
  with th have ok: "\<not> isl (claimFromSession example_chain (call_by 7 8) 1 example_session_open)"
    by (simp add: call_by_def)
  then obtain s' where s': "claimFromSession example_chain (call_by 7 8) 1 example_session_open = Inr s'"
    by (cases "claimFromSession example_chain (call_by 7 8) 1 example_session_open") auto
  have tr: "transact example_chain (call_by 7 8) (ClaimFromSession 1) example_session_open = s'"
    using s' by (simp add: transact_def)
  have nx: "nextTokenId (sbtToken example_session_open) = 1"
    and si: "ses_issuer (sessions (sbtSession example_session_open) 1) = 1"
    by (simp_all add: example_session_open_def run_defs)
  from th s' nx si tr have
    "owners (sbtToken (transact example_chain (call_by 7 8) (ClaimFromSession 1)
                          example_session_open)) 1 = 7"
    "sbt_issuer (sbtData (sbtToken (transact example_chain (call_by 7 8) (ClaimFromSession 1)
                          example_session_open)) 1) = 1"
    by (auto simp: call_by_def)
  with na chk ok show ?thesis by blast
qed

subsection \<open>Batch minting\<close>

lemma batchMintLoop_result:
  "batchMintLoop ch e sid session template rs t = Inr t' \<Longrightarrow>
     nextTokenId t' = nextTokenId t + length rs
   \<and> tok_paused t' = tok_paused t \<and> tok_owner t' = tok_owner t
   \<and> (\<forall>k. k < nextTokenId t \<longrightarrow> sbtData t' k = sbtData t k \<and> owners t' k = owners t k)
   \<and> (\<forall>i. i < length rs \<longrightarrow>
          sbtData t' (nextTokenId t + i) =
            minted_data e (msg_sender e) template (ses_templateId session) sid
        \<and> owners t' (nextTokenId t + i) = rs ! i)"
proof (induction rs arbitrary: t)
  case Nil
  then show ?case by simp
next
  case (Cons to rest)
  let ?n = "nextTokenId t"
  let ?t2 = "t\<lparr>nextTokenId := ?n + 1, owners := (owners t)(?n := to)\<rparr>"
  let ?t3 = "?t2\<lparr>sbtData := (sbtData ?t2)(?n :=
                     \<lparr>sbt_name = tpl_name template,
                      sbt_description = tpl_description template,
                      sbt_issuer = msg_sender e, sbt_mintedAt = block_timestamp e,
                      sbt_templateId = ses_templateId session,
                      sbt_sessionId = sid, sbt_revoked = False\<rparr>)\<rparr>
                  \<lparr>hasTokenFromSession := (hasTokenFromSession ?t2)(to :=
                     (hasTokenFromSession ?t2 to)(sid := True))\<rparr>
                  \<lparr>hasTokenFromTemplate := (hasTokenFromTemplate ?t2)(to :=
                     (hasTokenFromTemplate ?t2 to)(ses_templateId session := True))\<rparr>"
  from Cons.prems have rest: "batchMintLoop ch e sid session template rest ?t3 = Inr t'"
    by (auto simp: Let_def safeMint_Inr_iff split: if_splits sum.splits)
  note ih = Cons.IH[OF rest]
  have n': "nextTokenId t' = ?n + length (to # rest)" using ih by simp
  have old: "\<forall>k. k < ?n \<longrightarrow> sbtData t' k = sbtData t k \<and> owners t' k = owners t k"
    using ih by simp
  have first: "sbtData t' ?n = minted_data e (msg_sender e) template (ses_templateId session) sid
      \<and> owners t' ?n = to"
    using ih by (simp add: minted_data_def)
  have new: "\<forall>i. i < length (to # rest) \<longrightarrow>
          sbtData t' (?n + i) = minted_data e (msg_sender e) template (ses_templateId session) sid
        \<and> owners t' (?n + i) = (to # rest) ! i"
  proof (intro allI impI)
    fix i assume i: "i < length (to # rest)"
    show "sbtData t' (?n + i) = minted_data e (msg_sender e) template (ses_templateId session) sid
        \<and> owners t' (?n + i) = (to # rest) ! i"
    proof (cases i)
      case 0
      with first show ?thesis by simp
    next
      case (Suc j)
      with i have "j < length rest" by simp
      with ih have "sbtData t' (nextTokenId ?t3 + j) =
            minted_data e (msg_sender e) template (ses_templateId session) sid
        \<and> owners t' (nextTokenId ?t3 + j) = rest ! j" by blast
      with Suc show ?thesis by simp
    qed
  qed
  from ih n' old new show ?case by simp
qed

lemma batchMintLoop_markers:
  "batchMintLoop ch e sid session template rs t = Inr t' \<Longrightarrow>
     0 \<notin> set rs \<and> distinct rs \<and> (\<forall>r \<in> set rs. \<not> hasTokenFromSession t r sid)"
proof (induction rs arbitrary: t)
  case Nil
  then show ?case by simp
next
  case (Cons to rest)
  let ?n = "nextTokenId t"
  let ?t2 = "t\<lparr>nextTokenId := ?n + 1, owners := (owners t)(?n := to)\<rparr>"
  let ?t3 = "?t2\<lparr>sbtData := (sbtData ?t2)(?n :=
                     \<lparr>sbt_name = tpl_name template,
                      sbt_description = tpl_description template,
                      sbt_issuer = msg_sender e, sbt_mintedAt = block_timestamp e,
                      sbt_templateId = ses_templateId session,
                      sbt_sessionId = sid, sbt_revoked = False\<rparr>)\<rparr>
                  \<lparr>hasTokenFromSession := (hasTokenFromSession ?t2)(to :=
                     (hasTokenFromSession ?t2 to)(sid := True))\<rparr>
                  \<lparr>hasTokenFromTemplate := (hasTokenFromTemplate ?t2)(to :=
                     (hasTokenFromTemplate ?t2 to)(ses_templateId session := True))\<rparr>"
  from Cons.prems have hd: "to \<noteq> 0" "\<not> hasTokenFromSession t to sid"
    by (auto split: if_splits)
  from Cons.prems have rest: "batchMintLoop ch e sid session template rest ?t3 = Inr t'"
    by (auto simp: Let_def safeMint_Inr_iff split: if_splits sum.splits)
  note ih = Cons.IH[OF rest]
  have "to \<notin> set rest" using ih by auto
  moreover have "\<forall>r \<in> set rest. \<not> hasTokenFromSession t r sid"
    using ih by (auto split: if_splits)
  ultimately show ?case using ih hd by auto
qed

lemma incrementMintCountLoop_result:
  "incrementMintCountLoop a sid n ss = Inr ss' \<Longrightarrow>
     ss' = ss\<lparr>sessions := (sessions ss)(sid :=
              (sessions ss sid)\<lparr>ses_currentMints := ses_currentMints (sessions ss sid) + n\<rparr>)\<rparr>"
proof (induction n arbitrary: ss)
  case 0
  then show ?case by simp
next
  case (Suc n)
  then obtain ss1 where s1: "incrementMintCount a sid ss = Inr ss1"
    and rest: "incrementMintCountLoop a sid n ss1 = Inr ss'"
    by (auto split: sum.splits)
  from s1 have ss1: "ss1 = ss\<lparr>sessions := (sessions ss)(sid :=
              (sessions ss sid)\<lparr>ses_currentMints := ses_currentMints (sessions ss sid) + 1\<rparr>)\<rparr>"
    by (auto simp: incrementMintCount_def split: if_splits)
  from Suc.IH[OF rest] show ?case
    by (intro SBTSession.equality) (auto simp: ss1 fun_eq_iff)
qed

lemma batchMintFromSession_Inr:
  assumes "batchMintFromSession ch e recipients sid s = Inr s'"
  shows "recipients \<noteq> []" and "length recipients \<le> 100"
    and "ses_currentMints (sessions (sbtSession s) sid) + length recipients
           \<le> ses_maxMints (sessions (sbtSession s) sid)"
    and "batchMintLoop ch e sid (sessions (sbtSession s) sid)
           (templates (sbtTemplate s) (ses_templateId (sessions (sbtSession s) sid)))
           recipients (sbtToken s) = Inr (sbtToken s')"
    and "incrementMintCountLoop (token_address ch) sid (length recipients) (sbtSession s)
           = Inr (sbtSession s')"
    and "issuerRegistry s' = issuerRegistry s" and "sbtTemplate s' = sbtTemplate s"
  using assms
  by (auto simp: batchMintFromSession_def Let_def getSession_def getSessionStats_def
        getTemplate_def split: if_splits sum.splits prod.splits)

text \<open>
  C2. \<open>batchMintFromSession\<close> is all or nothing. If the batch is empty or longer than
  100, contains the zero address or a recipient twice, contains a recipient who already
  holds a token of the session, or would take the session's mint count past its maximum,
  the call reverts and the transaction leaves the whole state as it was: no token, no
  claim marker, no change of \<open>currentMints\<close>. When the call succeeds, the capacity
  pre-check \<open>currentMints + recipients.length \<le> maxMints\<close> held in the state before,
  and afterwards \<open>currentMints\<close> and the next token id have both grown by exactly the
  number of recipients.
\<close>

theorem batchMintFromSession_atomic:
  "((recipients = [] \<or> 100 < length recipients \<or> 0 \<in> set recipients
        \<or> \<not> distinct recipients
        \<or> (\<exists>r \<in> set recipients. hasTokenFromSession (sbtToken s) r sid)
        \<or> ses_maxMints (sessions (sbtSession s) sid)
             < ses_currentMints (sessions (sbtSession s) sid) + length recipients)
      \<longrightarrow> (\<exists>err. batchMintFromSession ch e recipients sid s = Inl err)
          \<and> transact ch e (BatchMintFromSession recipients sid) s = s)
   \<and> (\<forall>s'. batchMintFromSession ch e recipients sid s = Inr s' \<longrightarrow>
          ses_currentMints (sessions (sbtSession s) sid) + length recipients
            \<le> ses_maxMints (sessions (sbtSession s) sid)
        \<and> ses_currentMints (sessions (sbtSession s') sid)
            = ses_currentMints (sessions (sbtSession s) sid) + length recipients
        \<and> nextTokenId (sbtToken s') = nextTokenId (sbtToken s) + length recipients)"
proof (intro conjI impI allI)
  assume bad: "recipients = [] \<or> 100 < length recipients \<or> 0 \<in> set recipients
        \<or> \<not> distinct recipients
        \<or> (\<exists>r \<in> set recipients. hasTokenFromSession (sbtToken s) r sid)
        \<or> ses_maxMints (sessions (sbtSession s) sid)
             < ses_currentMints (sessions (sbtSession s) sid) + length recipients"
  have no: "batchMintFromSession ch e recipients sid s \<noteq> Inr s'" for s'
  proof
    assume ok: "batchMintFromSession ch e recipients sid s = Inr s'"
    note f = batchMintFromSession_Inr[OF ok]
    from batchMintLoop_markers[OF f(4)] f(1,2,3) bad show False by auto
  qed
  then show fails: "\<exists>err. batchMintFromSession ch e recipients sid s = Inl err"
    by (cases "batchMintFromSession ch e recipients sid s") auto
  then show "transact ch e (BatchMintFromSession recipients sid) s = s"
    by (auto simp: transact_def)
next
  fix s' assume ok: "batchMintFromSession ch e recipients sid s = Inr s'"
  note f = batchMintFromSession_Inr[OF ok]
  show "ses_currentMints (sessions (sbtSession s) sid) + length recipients
            \<le> ses_maxMints (sessions (sbtSession s) sid)" by (rule f(3))
  show "ses_currentMints (sessions (sbtSession s') sid)
            = ses_currentMints (sessions (sbtSession s) sid) + length recipients"
    using incrementMintCountLoop_result[OF f(5)] by simp
  show "nextTokenId (sbtToken s') = nextTokenId (sbtToken s) + length recipients"
    using batchMintLoop_result[OF f(4)] by simp
qed

lemmas batch_defs =
  batchMintFromSession_def getSessionStats_def

theorem batchMintFromSession_atomic_witness:
  "ses_currentMints (sessions (sbtSession example_one_claimed) 1) = 1
   \<and> ses_maxMints (sessions (sbtSession example_one_claimed) 1) = 2
   \<and> isl (batchMintFromSession example_chain (call_by 1 9) [8, 9] 1 example_one_claimed)
   \<and> transact example_chain (call_by 1 9) (BatchMintFromSession [8, 9] 1) example_one_claimed
       = example_one_claimed
   \<and> \<not> isl (batchMintFromSession example_chain (call_by 1 9) [8] 1 example_one_claimed)
   \<and> ses_currentMints (sessions (sbtSession
        (transact example_chain (call_by 1 9) (BatchMintFromSession [8] 1) example_one_claimed)) 1) = 2"
proof -
  have cur: "ses_currentMints (sessions (sbtSession example_one_claimed) 1) = 1"
    and mx: "ses_maxMints (sessions (sbtSession example_one_claimed) 1) = 2"
    by (simp_all add: example_one_claimed_def example_session_open_def run_defs)
  note th = batchMintFromSession_atomic[of "[8, 9]" example_one_claimed 1 example_chain "call_by 1 9"]
  from th cur mx have
    a: "isl (batchMintFromSession example_chain (call_by 1 9) [8, 9] 1 example_one_claimed)"
    and b: "transact example_chain (call_by 1 9) (BatchMintFromSession [8, 9] 1) example_one_claimed
       = example_one_claimed"
    by auto
  have ok: "\<not> isl (batchMintFromSession example_chain (call_by 1 9) [8] 1 example_one_claimed)"
    by (simp add: example_one_claimed_def example_session_open_def run_defs batch_defs)
  then obtain s' where s': "batchMintFromSession example_chain (call_by 1 9) [8] 1 example_one_claimed = Inr s'"
    by (cases "batchMintFromSession example_chain (call_by 1 9) [8] 1 example_one_claimed") auto
  note th2 = batchMintFromSession_atomic[of "[8]" example_one_claimed 1 example_chain "call_by 1 9"]
  from th2 s' cur have "ses_currentMints (sessions (sbtSession s') 1) = 2" by auto
  moreover have "transact example_chain (call_by 1 9) (BatchMintFromSession [8] 1) example_one_claimed = s'"
    using s' by (simp add: transact_def)
  ultimately show ?thesis using cur mx a b ok by simp
qed

subsection \<open>Session capacity\<close>

lemma mintFromSession_session:
  assumes "mintFromSession ch e to sid s = Inr s'"
  shows "isSessionClaimable (sbtSession s) (block_timestamp e) sid"
    and "incrementMintCount (token_address ch) sid (sbtSession s) = Inr (sbtSession s')"
  using assms
  by (auto simp: mintFromSession_def Let_def split: if_splits sum.splits)

lemma claimFromSession_session:
  assumes "claimFromSession ch e sid s = Inr s'"
  shows "isSessionClaimable (sbtSession s) (block_timestamp e) sid"
    and "incrementMintCount (token_address ch) sid (sbtSession s) = Inr (sbtSession s')"
  using assms
  by (auto simp: claimFromSession_def Let_def split: if_splits sum.splits)

lemma incrementMintCount_bounded:
  assumes inc: "incrementMintCount a sid ss = Inr ss'"
    and cl: "isSessionClaimable ss now sid"
    and b: "\<forall>k. ses_currentMints (sessions ss k) \<le> ses_maxMints (sessions ss k)"
  shows "sbtTokenContract ss' = sbtTokenContract ss
     \<and> (\<forall>k. ses_currentMints (sessions ss' k) \<le> ses_maxMints (sessions ss' k))"
  using assms
  by (auto simp: incrementMintCount_def isSessionClaimable_def split: if_splits)

lemma exec_mints_bounded:
  assumes ex: "exec ch e c s = Inr s'" and ext: "external_call ch e c"
    and keep: "keeps_token_contract ch e c"
    and inv: "mints_bounded ch s"
  shows "mints_bounded ch s'"
proof (cases c)
  case (CreateSession templateId maxMints durationInSeconds title)
  with ex inv show ?thesis
    by (auto simp: mints_bounded_def in_session_def createSession_def Let_def
          split: if_splits sum.splits prod.splits)
next
  case (EndSession sid)
  with ex inv show ?thesis
    by (auto simp: mints_bounded_def in_session_def endSession_def split: if_splits sum.splits)
next
  case (IncrementMintCount sid)
  with ex ext inv show ?thesis
    by (auto simp: mints_bounded_def in_session_def incrementMintCount_def external_call_def
          split: if_splits sum.splits)
next
  case SessionPause
  with ex inv show ?thesis
    by (auto simp: mints_bounded_def in_session_def ses_pause_def split: if_splits sum.splits)
next
  case SessionUnpause
  with ex inv show ?thesis
    by (auto simp: mints_bounded_def in_session_def ses_unpause_def split: if_splits sum.splits)
next
  case (SetSBTTokenContract a)
  with ex keep inv show ?thesis
    by (auto simp: mints_bounded_def in_session_def setSBTTokenContract_def
          split: if_splits sum.splits)
next
  case (SessionTransferOwnership newOwner)
  with ex inv show ?thesis
    by (auto simp: mints_bounded_def in_session_def ses_transferOwnership_def
          split: if_splits sum.splits)
next
  case SessionRenounceOwnership
  with ex inv show ?thesis
    by (auto simp: mints_bounded_def in_session_def ses_renounceOwnership_def
          split: if_splits sum.splits)
next
  case (MintFromTemplate to tid)
  with ex inv show ?thesis
    using mintFromTemplate_frame[of ch e to tid s s'] by (simp add: mints_bounded_def)
next
  case (MintFromSession to sid)
  with ex have m: "mintFromSession ch e to sid s = Inr s'" by simp
  from incrementMintCount_bounded[OF mintFromSession_session(2)[OF m]
      mintFromSession_session(1)[OF m]] inv
  show ?thesis by (simp add: mints_bounded_def)
next
  case (ClaimFromSession sid)
  with ex have m: "claimFromSession ch e sid s = Inr s'" by simp
  from incrementMintCount_bounded[OF claimFromSession_session(2)[OF m]
      claimFromSession_session(1)[OF m]] inv
  show ?thesis by (simp add: mints_bounded_def)
next
  case (BatchMintFromSession recipients sid)
  with ex have m: "batchMintFromSession ch e recipients sid s = Inr s'" by simp
  note f = batchMintFromSession_Inr[OF m]
  from incrementMintCountLoop_result[OF f(5)] f(3) inv
  show ?thesis by (auto simp: mints_bounded_def)
qed (use ex inv in \<open>auto simp: mints_bounded_def in_registry_def in_template_def in_token_def
        split: sum.splits\<close>)

lemma transact_mints_bounded:
  "mints_bounded ch s \<Longrightarrow> external_call ch e c \<Longrightarrow> keeps_token_contract ch e c
     \<Longrightarrow> mints_bounded ch (transact ch e c s)"
  by (auto simp: transact_def split: sum.splits dest: exec_mints_bounded)

lemma deploy_mints_bounded:
  "deploy ch d now = Inr s \<Longrightarrow> mints_bounded ch s"
  by (auto simp: deploy_def mints_bounded_def setSBTTokenContract_def SBTSession_constructor_def
        Session_zero_def split: if_splits sum.splits)

lemma reachable_while_mints_bounded:
  "reachable_while ch (keeps_token_contract ch) d s \<Longrightarrow> mints_bounded ch s"
  by (induction rule: reachable_while.induct)
     (auto intro: deploy_mints_bounded transact_mints_bounded)

text \<open>
  The mint paths keep the bound in any state at all, whatever the wiring: a mint through
  a session either reverts or finds room first.
\<close>

lemma mint_call_keeps_bound:
  assumes ex: "exec ch e c s = Inr s'" and m: "is_mint_call c"
    and b: "\<forall>k. ses_currentMints (sessions (sbtSession s) k)
                 \<le> ses_maxMints (sessions (sbtSession s) k)"
  shows "\<forall>k. ses_currentMints (sessions (sbtSession s') k)
               \<le> ses_maxMints (sessions (sbtSession s') k)"
proof (cases c)
  case (MintFromTemplate to tid)
  with ex b show ?thesis
    using mintFromTemplate_frame[of ch e to tid s s'] by simp
next
  case (MintFromSession to sid)
  with ex have f: "mintFromSession ch e to sid s = Inr s'" by simp
  from incrementMintCount_bounded[OF mintFromSession_session(2)[OF f]
      mintFromSession_session(1)[OF f] b]
  show ?thesis by simp
next
  case (ClaimFromSession sid)
  with ex have f: "claimFromSession ch e sid s = Inr s'" by simp
  from incrementMintCount_bounded[OF claimFromSession_session(2)[OF f]
      claimFromSession_session(1)[OF f] b]
  show ?thesis by simp
next
  case (BatchMintFromSession recipients sid)
  with ex have f: "batchMintFromSession ch e recipients sid s = Inr s'" by simp
  note g = batchMintFromSession_Inr[OF f]
  from incrementMintCountLoop_result[OF g(5)] g(3) b
  show ?thesis by auto
qed (use m in simp_all)

lemma transact_mint_call_keeps_bound:
  assumes "is_mint_call c"
    and "\<forall>k. ses_currentMints (sessions (sbtSession s) k)
                 \<le> ses_maxMints (sessions (sbtSession s) k)"
  shows "ses_currentMints (sessions (sbtSession (transact ch e c s)) sid)
           \<le> ses_maxMints (sessions (sbtSession (transact ch e c s)) sid)"
proof (cases "exec ch e c s")
  case (Inl err)
  with assms(2) show ?thesis by (simp add: transact_def)
next
  case (Inr s')
  from mint_call_keeps_bound[OF Inr assms] Inr show ?thesis by (simp add: transact_def)
qed

text \<open>
  C3, as the claim states it, fails: \<open>currentMints \<le> maxMints\<close> does not hold in every
  reachable state. \<open>setSBTTokenContract\<close> is an owner-only entry point of the session
  manager that can be called again after deployment. In the example session (two slots,
  filled by accounts 7 and 8) the owner points \<open>sbtTokenContract\<close> at account 9; account 9
  then calls \<open>incrementMintCount\<close>, which adds one with no capacity check: 3 of 2.
\<close>

theorem repointed_token_contract_counterexample:
  "reachable example_chain 1 example_repointed
   \<and> ses_maxMints (sessions (sbtSession example_repointed) 1) = 2
   \<and> ses_currentMints (sessions (sbtSession example_repointed) 1) = 3"
proof -
  have "reachable example_chain 1 example_repointed"
    unfolding example_repointed_def
    by (rule reachable_example_run) (simp add: external_call_def call_by_def example_chain_def)
  moreover have "ses_maxMints (sessions (sbtSession example_repointed) 1) = 2"
    "ses_currentMints (sessions (sbtSession example_repointed) 1) = 3"
    by (simp_all add: example_repointed_def run_defs)
  ultimately show ?thesis by simp
qed

text \<open>
  C3, amended. No sequence or mix of \<open>mintFromTemplate\<close>, \<open>mintFromSession\<close>,
  \<open>claimFromSession\<close> and \<open>batchMintFromSession\<close> calls can push a session's
  \<open>currentMints\<close> past its \<open>maxMints\<close>: each of them keeps \<open>currentMints \<le> maxMints\<close> for
  every session, from any state. And as long as the session manager's \<open>sbtTokenContract\<close>
  is not pointed at another address than the token contract, every session has
  \<open>currentMints \<le> maxMints\<close> in every state reached after deployment by any sequence and
  mix of calls, and a direct call of \<open>incrementMintCount\<close> by anyone but the token contract
  is rejected. The bound comes from the mint paths, not from \<open>incrementMintCount\<close>: called
  by the configured token contract on an existing session it adds one with no capacity
  check.
\<close>

theorem currentMints_le_maxMints:
  "(reachable_while ch (keeps_token_contract ch) deployer s \<longrightarrow>
      ses_currentMints (sessions (sbtSession s) sid) \<le> ses_maxMints (sessions (sbtSession s) sid)
      \<and> (\<forall>e. msg_sender e \<noteq> token_address ch \<longrightarrow>
             (\<exists>err. exec ch e (IncrementMintCount sid) s = Inl err)))
   \<and> (is_mint_call c
        \<and> (\<forall>k. ses_currentMints (sessions (sbtSession s0) k)
                  \<le> ses_maxMints (sessions (sbtSession s0) k)) \<longrightarrow>
        ses_currentMints (sessions (sbtSession (transact ch e0 c s0)) sid)
          \<le> ses_maxMints (sessions (sbtSession (transact ch e0 c s0)) sid))
   \<and> (ses_issuer (sessions ss sid) \<noteq> 0 \<and> ses_currentMints (sessions ss sid) < uint256_max \<longrightarrow>
        (\<exists>ss'. incrementMintCount (sbtTokenContract ss) sid ss = Inr ss'
              \<and> ses_currentMints (sessions ss' sid) = ses_currentMints (sessions ss sid) + 1))"
proof (intro conjI impI allI)
  assume r: "reachable_while ch (keeps_token_contract ch) deployer s"
  from reachable_while_mints_bounded[OF r]
  show "ses_currentMints (sessions (sbtSession s) sid) \<le> ses_maxMints (sessions (sbtSession s) sid)"
    by (simp add: mints_bounded_def)
next
  fix e :: txenv
  assume r: "reachable_while ch (keeps_token_contract ch) deployer s"
    and e: "msg_sender e \<noteq> token_address ch"
  from reachable_while_mints_bounded[OF r] e
  show "\<exists>err. exec ch e (IncrementMintCount sid) s = Inl err"
    by (simp add: mints_bounded_def in_session_def incrementMintCount_def)
next
  assume "is_mint_call c
        \<and> (\<forall>k. ses_currentMints (sessions (sbtSession s0) k)
                  \<le> ses_maxMints (sessions (sbtSession s0) k))"
  then show "ses_currentMints (sessions (sbtSession (transact ch e0 c s0)) sid)
          \<le> ses_maxMints (sessions (sbtSession (transact ch e0 c s0)) sid)"
    using transact_mint_call_keeps_bound[of c s0 ch e0 sid] by blast
next
  assume "ses_issuer (sessions ss sid) \<noteq> 0 \<and> ses_currentMints (sessions ss sid) < uint256_max"
  then show "\<exists>ss'. incrementMintCount (sbtTokenContract ss) sid ss = Inr ss'
              \<and> ses_currentMints (sessions ss' sid) = ses_currentMints (sessions ss sid) + 1"
    by (simp add: incrementMintCount_def)
qed

theorem currentMints_le_maxMints_witness:
  "reachable_while example_chain (keeps_token_contract example_chain) 1 example_session_full
   \<and> ses_currentMints (sessions (sbtSession example_session_full) 1) = 2
   \<and> ses_maxMints (sessions (sbtSession example_session_full) 1) = 2
   \<and> ses_currentMints (sessions (sbtSession example_session_full) 1)
       \<le> ses_maxMints (sessions (sbtSession example_session_full) 1)
   \<and> exec example_chain (call_by 9 12) (IncrementMintCount 1) example_session_full
       = Inl Ses_NotSBTTokenContract
   \<and> is_mint_call (ClaimFromSession 1)
   \<and> ses_currentMints (sessions (sbtSession
        (transact example_chain (call_by 9 12) (ClaimFromSession 1) example_session_full)) 1)
       \<le> ses_maxMints (sessions (sbtSession
        (transact example_chain (call_by 9 12) (ClaimFromSession 1) example_session_full)) 1)
   \<and> ses_issuer (sessions (sbtSession example_session_full) 1) \<noteq> 0
   \<and> ses_currentMints (sessions (sbtSession example_session_full) 1) < uint256_max
   \<and> ses_currentMints (sessions (projr (incrementMintCount 1000 1
         (sbtSession example_session_full))) 1) = 3"
proof -
  have r: "reachable_while example_chain (keeps_token_contract example_chain) 1
      example_session_full"
    unfolding example_session_full_def
    by (rule reachable_while_example_run) (simp add: external_call_def)
  have v: "ses_currentMints (sessions (sbtSession example_session_full) 1) = 2"
    "ses_maxMints (sessions (sbtSession example_session_full) 1) = 2"
    "ses_issuer (sessions (sbtSession example_session_full) 1) \<noteq> 0"
    "sbtTokenContract (sbtSession example_session_full) = 1000"
    by (simp_all add: example_session_full_def run_defs)
  have u: "ses_currentMints (sessions (sbtSession example_session_full) 1) < uint256_max"
    unfolding v(1) uint256_max_def by simp
  note th = currentMints_le_maxMints[of example_chain 1 example_session_full _
      "ClaimFromSession 1" example_session_full "call_by 9 12"]
  from th[of 1] r have le: "ses_currentMints (sessions (sbtSession example_session_full) 1)
       \<le> ses_maxMints (sessions (sbtSession example_session_full) 1)" by blast
  have all: "\<forall>k. ses_currentMints (sessions (sbtSession example_session_full) k)
       \<le> ses_maxMints (sessions (sbtSession example_session_full) k)"
  proof
    fix k from th[of k] r
    show "ses_currentMints (sessions (sbtSession example_session_full) k)
       \<le> ses_maxMints (sessions (sbtSession example_session_full) k)" by blast
  qed
  have mc: "is_mint_call (ClaimFromSession 1)" by simp
  from th[of 1 "sbtSession example_session_full"] mc all
  have keep: "ses_currentMints (sessions (sbtSession
        (transact example_chain (call_by 9 12) (ClaimFromSession 1) example_session_full)) 1)
       \<le> ses_maxMints (sessions (sbtSession
        (transact example_chain (call_by 9 12) (ClaimFromSession 1) example_session_full)) 1)"
    by blast
  have ne: "msg_sender (call_by 9 12) \<noteq> token_address example_chain"
    by (simp add: call_by_def example_chain_def)
  from th[of 1] r have "\<forall>e. msg_sender e \<noteq> token_address example_chain \<longrightarrow>
      (\<exists>err. exec example_chain e (IncrementMintCount 1) example_session_full = Inl err)"
    by blast
  with ne have "\<exists>err. exec example_chain (call_by 9 12) (IncrementMintCount 1)
       example_session_full = Inl err"
    by blast
  then have ex: "exec example_chain (call_by 9 12) (IncrementMintCount 1) example_session_full
       = Inl Ses_NotSBTTokenContract"
    by (auto simp: in_session_def incrementMintCount_def v call_by_def split: if_splits)
  from th[of 1 "sbtSession example_session_full"] v u obtain ss' where
    "incrementMintCount 1000 1 (sbtSession example_session_full) = Inr ss'"
    "ses_currentMints (sessions ss' 1) = 3" by auto
  then have inc: "ses_currentMints (sessions (projr (incrementMintCount 1000 1
         (sbtSession example_session_full))) 1) = 3" by simp
  from r v le ex mc keep u inc show ?thesis by simp
qed

subsection \<open>One token per owner and template\<close>

text \<open>
  C1. The code at the input that breaks the claim. The issuer mints account 7 a token
  from template 1 with \<open>mintFromTemplate\<close>, which sets the (7, template 1) marker; account
  7 then calls \<open>claimFromSession\<close> on a session of template 1. The session paths look at
  the session marker only, so the claim succeeds: in the resulting reachable state account
  7 owns tokens 1 and 2, both not revoked, both of template 1. \<open>mintFromTemplate\<close>, the
  sibling path, does check the template marker and rejects a further mint.
\<close>

theorem session_mint_ignores_template_marker:
  "reachable example_chain 1 example_two_tokens
   \<and> holds_live_token (sbtToken example_two_tokens) 7 1 1
   \<and> holds_live_token (sbtToken example_two_tokens) 7 2 1
   \<and> hasTokenFromTemplate (sbtToken (transact example_chain (call_by 1 7)
         (MintFromTemplate 7 1) example_session_open)) 7 1
   \<and> \<not> isl (claimFromSession example_chain (call_by 7 8) 1
         (transact example_chain (call_by 1 7) (MintFromTemplate 7 1) example_session_open))
   \<and> mintFromTemplate example_chain (call_by 1 9) 7 1 example_two_tokens
       = Inl Tok_AlreadyHasTokenFromTemplate"
proof -
  have "example_two_tokens = run example_chain
       [(call_by 1 5, CreateTemplate ''Workshop'' ''Attended''),
        (call_by 1 6, CreateSession 1 2 3600 ''Day 1''),
        (call_by 1 7, MintFromTemplate 7 1),
        (call_by 7 8, ClaimFromSession 1)] example_deployed"
    by (simp add: example_two_tokens_def example_session_open_def)
  moreover have "reachable example_chain 1 (run example_chain
       [(call_by 1 5, CreateTemplate ''Workshop'' ''Attended''),
        (call_by 1 6, CreateSession 1 2 3600 ''Day 1''),
        (call_by 1 7, MintFromTemplate 7 1),
        (call_by 7 8, ClaimFromSession 1)] example_deployed)"
    by (rule reachable_example_run) (simp add: external_call_def)
  ultimately have r: "reachable example_chain 1 example_two_tokens" by simp
  have "holds_live_token (sbtToken example_two_tokens) 7 1 1"
    "holds_live_token (sbtToken example_two_tokens) 7 2 1"
    "hasTokenFromTemplate (sbtToken (transact example_chain (call_by 1 7)
         (MintFromTemplate 7 1) example_session_open)) 7 1"
    "\<not> isl (claimFromSession example_chain (call_by 7 8) 1
         (transact example_chain (call_by 1 7) (MintFromTemplate 7 1) example_session_open))"
    "mintFromTemplate example_chain (call_by 1 9) 7 1 example_two_tokens
       = Inl Tok_AlreadyHasTokenFromTemplate"
    by (simp_all add: holds_live_token_def example_two_tokens_def example_session_open_def run_defs)
  with r show ?thesis by simp
qed

subsection \<open>Token text is frozen at mint time\<close>

lemma mintFromTemplate_result:
  assumes "mintFromTemplate ch e to tid s = Inr s'"
  shows "sbtData (sbtToken s') (nextTokenId (sbtToken s)) =
           minted_data e (msg_sender e) (templates (sbtTemplate s) tid) tid 0"
    and "owners (sbtToken s') (nextTokenId (sbtToken s)) = to"
  using assms
  by (auto simp: mintFromTemplate_def Let_def getTemplate_def minted_data_def
        safeMint_Inr_iff split: sum.splits if_splits)

lemma mintFromSession_result:
  assumes "mintFromSession ch e to sid s = Inr s'"
  shows "sbtData (sbtToken s') (nextTokenId (sbtToken s)) =
           minted_data e (msg_sender e)
             (templates (sbtTemplate s) (ses_templateId (sessions (sbtSession s) sid)))
             (ses_templateId (sessions (sbtSession s) sid)) sid"
    and "owners (sbtToken s') (nextTokenId (sbtToken s)) = to"
  using assms
  by (auto simp: mintFromSession_def Let_def getSession_def getTemplate_def minted_data_def
        incrementMintCount_def safeMint_Inr_iff split: sum.splits if_splits)

lemma updateTemplate_result:
  assumes "exec ch e (UpdateTemplate tid name description) s = Inr s'"
  shows "sbtToken s' = sbtToken s"
    and "tpl_name (templates (sbtTemplate s') tid) = name"
    and "tpl_description (templates (sbtTemplate s') tid) = description"
  using assms
  by (auto simp: in_template_def updateTemplate_def split: sum.splits if_splits)

text \<open>
  C6. A token's name and description are copied from the template when the token is
  minted, on each of the four mint paths, and a later successful \<open>updateTemplate\<close>
  changes the template's text only: every token's stored record (name, description,
  issuer, mintedAt, templateId, sessionId, revoked) and its owner stay as they were.
\<close>

theorem updateTemplate_leaves_tokens:
  "(\<forall>s'. exec ch e (UpdateTemplate templateId name description) s = Inr s' \<longrightarrow>
        sbtData (sbtToken s') tokenId = sbtData (sbtToken s) tokenId
      \<and> owners (sbtToken s') tokenId = owners (sbtToken s) tokenId
      \<and> tpl_name (templates (sbtTemplate s') templateId) = name
      \<and> tpl_description (templates (sbtTemplate s') templateId) = description)
   \<and> (\<forall>s'. mintFromTemplate ch e to templateId s = Inr s' \<longrightarrow>
        sbtData (sbtToken s') (nextTokenId (sbtToken s)) =
          minted_data e (msg_sender e) (templates (sbtTemplate s) templateId) templateId 0)
   \<and> (\<forall>s'. mintFromSession ch e to sid s = Inr s' \<longrightarrow>
        sbtData (sbtToken s') (nextTokenId (sbtToken s)) =
          minted_data e (msg_sender e)
            (templates (sbtTemplate s) (ses_templateId (sessions (sbtSession s) sid)))
            (ses_templateId (sessions (sbtSession s) sid)) sid)
   \<and> (\<forall>s'. claimFromSession ch e sid s = Inr s' \<longrightarrow>
        sbtData (sbtToken s') (nextTokenId (sbtToken s)) =
          minted_data e (ses_issuer (sessions (sbtSession s) sid))
            (templates (sbtTemplate s) (ses_templateId (sessions (sbtSession s) sid)))
            (ses_templateId (sessions (sbtSession s) sid)) sid)
   \<and> (\<forall>s' i. batchMintFromSession ch e recipients sid s = Inr s' \<and> i < length recipients \<longrightarrow>
        sbtData (sbtToken s') (nextTokenId (sbtToken s) + i) =
          minted_data e (msg_sender e)
            (templates (sbtTemplate s) (ses_templateId (sessions (sbtSession s) sid)))
            (ses_templateId (sessions (sbtSession s) sid)) sid)"
proof (intro conjI allI impI)
  fix s' assume u: "exec ch e (UpdateTemplate templateId name description) s = Inr s'"
  note r = updateTemplate_result[OF u]
  show "sbtData (sbtToken s') tokenId = sbtData (sbtToken s) tokenId"
    and "owners (sbtToken s') tokenId = owners (sbtToken s) tokenId"
    by (simp_all add: r(1))
  show "tpl_name (templates (sbtTemplate s') templateId) = name" by (rule r(2))
  show "tpl_description (templates (sbtTemplate s') templateId) = description" by (rule r(3))
next
  fix s' assume "mintFromTemplate ch e to templateId s = Inr s'"
  then show "sbtData (sbtToken s') (nextTokenId (sbtToken s)) =
          minted_data e (msg_sender e) (templates (sbtTemplate s) templateId) templateId 0"
    by (rule mintFromTemplate_result(1))
next
  fix s' assume "mintFromSession ch e to sid s = Inr s'"
  then show "sbtData (sbtToken s') (nextTokenId (sbtToken s)) =
          minted_data e (msg_sender e)
            (templates (sbtTemplate s) (ses_templateId (sessions (sbtSession s) sid)))
            (ses_templateId (sessions (sbtSession s) sid)) sid"
    by (rule mintFromSession_result(1))
next
  fix s' assume "claimFromSession ch e sid s = Inr s'"
  from claimFromSession_result(2)[OF this]
  show "sbtData (sbtToken s') (nextTokenId (sbtToken s)) =
          minted_data e (ses_issuer (sessions (sbtSession s) sid))
            (templates (sbtTemplate s) (ses_templateId (sessions (sbtSession s) sid)))
            (ses_templateId (sessions (sbtSession s) sid)) sid"
    by (simp add: minted_data_def)
next
  fix s' i assume "batchMintFromSession ch e recipients sid s = Inr s' \<and> i < length recipients"
  then have b: "batchMintFromSession ch e recipients sid s = Inr s'"
    and i: "i < length recipients" by simp_all
  from batchMintLoop_result[OF batchMintFromSession_Inr(4)[OF b]] i
  show "sbtData (sbtToken s') (nextTokenId (sbtToken s) + i) =
          minted_data e (msg_sender e)
            (templates (sbtTemplate s) (ses_templateId (sessions (sbtSession s) sid)))
            (ses_templateId (sessions (sbtSession s) sid)) sid"
    by blast
qed

theorem updateTemplate_leaves_tokens_witness:
  "\<not> isl (mintFromTemplate example_chain (call_by 1 7) 7 1 example_session_open)
   \<and> \<not> isl (exec example_chain (call_by 1 8) (UpdateTemplate 1 ''Seminar'' ''Spoke'')
         (transact example_chain (call_by 1 7) (MintFromTemplate 7 1) example_session_open))
   \<and> tpl_name (templates (sbtTemplate example_session_open) 1) = ''Workshop''
   \<and> tpl_name (templates (sbtTemplate example_renamed) 1) = ''Seminar''
   \<and> sbt_name (sbtData (sbtToken example_renamed) 1) = ''Workshop''
   \<and> sbt_description (sbtData (sbtToken example_renamed) 1) = ''Attended''"
proof -
  let ?s1 = "transact example_chain (call_by 1 7) (MintFromTemplate 7 1) example_session_open"
  have m: "\<not> isl (mintFromTemplate example_chain (call_by 1 7) 7 1 example_session_open)"
    by (simp add: example_session_open_def run_defs)
  then obtain s1 where s1: "mintFromTemplate example_chain (call_by 1 7) 7 1 example_session_open = Inr s1"
    by (cases "mintFromTemplate example_chain (call_by 1 7) 7 1 example_session_open") auto
  then have t1: "?s1 = s1" by (simp add: transact_def)
  have u: "\<not> isl (exec example_chain (call_by 1 8) (UpdateTemplate 1 ''Seminar'' ''Spoke'') ?s1)"
    by (simp add: example_session_open_def run_defs updateTemplate_def)
  then obtain s2 where s2: "exec example_chain (call_by 1 8) (UpdateTemplate 1 ''Seminar'' ''Spoke'') s1 = Inr s2"
    unfolding t1
    by (cases "exec example_chain (call_by 1 8) (UpdateTemplate 1 ''Seminar'' ''Spoke'') s1") auto
  have ren: "example_renamed = s2"
    using s1 s2 by (simp add: example_renamed_def transact_def)
  have nx: "nextTokenId (sbtToken example_session_open) = 1"
    and nm: "tpl_name (templates (sbtTemplate example_session_open) 1) = ''Workshop''"
    and ds: "tpl_description (templates (sbtTemplate example_session_open) 1) = ''Attended''"
    by (simp_all add: example_session_open_def run_defs)
  note th1 = updateTemplate_leaves_tokens[of example_chain "call_by 1 7" 1 name description
      example_session_open tokenId 7 sid recipients for name description tokenId sid recipients]
  from th1 s1 nx have d1: "sbtData (sbtToken s1) 1 =
      minted_data (call_by 1 7) 1 (templates (sbtTemplate example_session_open) 1) 1 0"
    by (auto simp: call_by_def)
  note th2 = updateTemplate_leaves_tokens[of example_chain "call_by 1 8" 1 "''Seminar''" "''Spoke''"
      s1 1]
  from th2 s2 have "sbtData (sbtToken s2) 1 = sbtData (sbtToken s1) 1"
    and n2: "tpl_name (templates (sbtTemplate s2) 1) = ''Seminar''" by blast+
  with d1 nm ds have "sbt_name (sbtData (sbtToken s2) 1) = ''Workshop''"
    "sbt_description (sbtData (sbtToken s2) 1) = ''Attended''"
    by (simp_all add: minted_data_def)
  with m u nm n2 ren show ?thesis by simp
qed

subsection \<open>Sessions of a deactivated template\<close>

lemma deactivateTemplate_result:
  assumes "exec ch e (DeactivateTemplate tid) s = Inr s'"
  shows "s' = s\<lparr>sbtTemplate := (sbtTemplate s)\<lparr>templates := (templates (sbtTemplate s))(tid :=
                 (templates (sbtTemplate s) tid)\<lparr>tpl_active := False\<rparr>)\<rparr>\<rparr>"
    and "templateExists (sbtTemplate s) tid"
  using assms
  by (auto simp: in_template_def deactivateTemplate_def split: sum.splits if_splits)

lemma batchMintLoop_active_flag:
  "batchMintLoop ch e sid session (template\<lparr>tpl_active := b\<rparr>) rs t =
     batchMintLoop ch e sid session template rs t"
  by (induction rs arbitrary: t) (simp_all add: Let_def split: sum.splits)

lemma mintFromSession_active_flag:
  "mintFromSession ch e to sid
       (s\<lparr>sbtTemplate := (sbtTemplate s)\<lparr>templates := (templates (sbtTemplate s))(tid :=
                 (templates (sbtTemplate s) tid)\<lparr>tpl_active := b\<rparr>)\<rparr>\<rparr>) =
     map_sum id (\<lambda>x. x\<lparr>sbtTemplate := (sbtTemplate s)\<lparr>templates :=
                 (templates (sbtTemplate s))(tid :=
                 (templates (sbtTemplate s) tid)\<lparr>tpl_active := b\<rparr>)\<rparr>\<rparr>)
       (mintFromSession ch e to sid s)"
  by (simp add: mintFromSession_def Let_def getTemplate_def templateExists_def
        split: sum.splits)

lemma claimFromSession_active_flag:
  "claimFromSession ch e sid
       (s\<lparr>sbtTemplate := (sbtTemplate s)\<lparr>templates := (templates (sbtTemplate s))(tid :=
                 (templates (sbtTemplate s) tid)\<lparr>tpl_active := b\<rparr>)\<rparr>\<rparr>) =
     map_sum id (\<lambda>x. x\<lparr>sbtTemplate := (sbtTemplate s)\<lparr>templates :=
                 (templates (sbtTemplate s))(tid :=
                 (templates (sbtTemplate s) tid)\<lparr>tpl_active := b\<rparr>)\<rparr>\<rparr>)
       (claimFromSession ch e sid s)"
  by (simp add: claimFromSession_def Let_def getTemplate_def templateExists_def
        split: sum.splits)

lemma batchMintFromSession_active_flag:
  "batchMintFromSession ch e rs sid
       (s\<lparr>sbtTemplate := (sbtTemplate s)\<lparr>templates := (templates (sbtTemplate s))(tid :=
                 (templates (sbtTemplate s) tid)\<lparr>tpl_active := b\<rparr>)\<rparr>\<rparr>) =
     map_sum id (\<lambda>x. x\<lparr>sbtTemplate := (sbtTemplate s)\<lparr>templates :=
                 (templates (sbtTemplate s))(tid :=
                 (templates (sbtTemplate s) tid)\<lparr>tpl_active := b\<rparr>)\<rparr>\<rparr>)
       (batchMintFromSession ch e rs sid s)"
  by (simp add: batchMintFromSession_def Let_def getTemplate_def templateExists_def
        batchMintLoop_active_flag split: sum.splits prod.splits)

text \<open>
  C10. Deactivating a template does not block minting through its sessions. After a
  successful \<open>deactivateTemplate\<close> the template is inactive and \<open>mintFromTemplate\<close> on it
  is rejected, but \<open>mintFromSession\<close>, \<open>batchMintFromSession\<close> and \<open>claimFromSession\<close>
  behave exactly as they would have without the deactivation. \<open>mintFromSession\<close> and
  \<open>claimFromSession\<close> succeed exactly when the session checks hold, none of which reads
  the template's active flag. Whenever one of the three succeeds after the deactivation,
  the tokens exist: each new token id is owned by its recipient and its record carries the
  name and description that the inactive template has at that moment.
\<close>

theorem session_mint_after_deactivateTemplate:
  assumes d: "exec ch e0 (DeactivateTemplate templateId) s = Inr s'"
  shows "\<not> isTemplateActive (sbtTemplate s') templateId
   \<and> isl (mintFromTemplate ch e to templateId s')
   \<and> mintFromSession ch e to sid s' =
       map_sum id (\<lambda>x. x\<lparr>sbtTemplate := sbtTemplate s'\<rparr>) (mintFromSession ch e to sid s)
   \<and> batchMintFromSession ch e recipients sid s' =
       map_sum id (\<lambda>x. x\<lparr>sbtTemplate := sbtTemplate s'\<rparr>)
         (batchMintFromSession ch e recipients sid s)
   \<and> claimFromSession ch e sid s' =
       map_sum id (\<lambda>x. x\<lparr>sbtTemplate := sbtTemplate s'\<rparr>) (claimFromSession ch e sid s)
   \<and> (\<not> isl (mintFromSession ch e to sid s')) =
       (isAuthorizedIssuer (issuerRegistry s') (msg_sender e)
        \<and> ses_issuer (sessions (sbtSession s') sid) = msg_sender e
        \<and> session_mint_checks ch e to sid s')
   \<and> (\<not> isl (claimFromSession ch e sid s')) = session_mint_checks ch e (msg_sender e) sid s'
   \<and> (\<forall>s2. mintFromSession ch e to sid s' = Inr s2 \<longrightarrow>
          owners (sbtToken s2) (nextTokenId (sbtToken s')) = to
        \<and> sbtData (sbtToken s2) (nextTokenId (sbtToken s')) =
            minted_data e (msg_sender e)
              (templates (sbtTemplate s') (ses_templateId (sessions (sbtSession s') sid)))
              (ses_templateId (sessions (sbtSession s') sid)) sid)
   \<and> (\<forall>s2 i. batchMintFromSession ch e recipients sid s' = Inr s2 \<and> i < length recipients \<longrightarrow>
          owners (sbtToken s2) (nextTokenId (sbtToken s') + i) = recipients ! i
        \<and> sbtData (sbtToken s2) (nextTokenId (sbtToken s') + i) =
            minted_data e (msg_sender e)
              (templates (sbtTemplate s') (ses_templateId (sessions (sbtSession s') sid)))
              (ses_templateId (sessions (sbtSession s') sid)) sid)
   \<and> (\<forall>s2. claimFromSession ch e sid s' = Inr s2 \<longrightarrow>
          owners (sbtToken s2) (nextTokenId (sbtToken s')) = msg_sender e
        \<and> sbtData (sbtToken s2) (nextTokenId (sbtToken s')) =
            minted_data e (ses_issuer (sessions (sbtSession s') sid))
              (templates (sbtTemplate s') (ses_templateId (sessions (sbtSession s') sid)))
              (ses_templateId (sessions (sbtSession s') sid)) sid
        \<and> sbt_name (sbtData (sbtToken s2) (nextTokenId (sbtToken s'))) =
            tpl_name (templates (sbtTemplate s') (ses_templateId (sessions (sbtSession s') sid)))
        \<and> sbt_description (sbtData (sbtToken s2) (nextTokenId (sbtToken s'))) =
            tpl_description
              (templates (sbtTemplate s') (ses_templateId (sessions (sbtSession s') sid))))"
proof -
  let ?T = "(sbtTemplate s)\<lparr>templates := (templates (sbtTemplate s))(templateId :=
                 (templates (sbtTemplate s) templateId)\<lparr>tpl_active := False\<rparr>)\<rparr>"
  note r = deactivateTemplate_result[OF d]
  have T: "sbtTemplate s' = ?T" by (simp add: r(1))
  have s': "s' = s\<lparr>sbtTemplate := ?T\<rparr>" by (rule r(1))
  have a: "\<not> isTemplateActive (sbtTemplate s') templateId"
    by (simp add: T isTemplateActive_def)
  then have b: "isl (mintFromTemplate ch e to templateId s')"
    by (simp add: mintFromTemplate_def Let_def)
  have c: "mintFromSession ch e to sid s' =
       map_sum id (\<lambda>x. x\<lparr>sbtTemplate := sbtTemplate s'\<rparr>) (mintFromSession ch e to sid s)"
    unfolding T unfolding s' by (rule mintFromSession_active_flag)
  have f: "batchMintFromSession ch e recipients sid s' =
       map_sum id (\<lambda>x. x\<lparr>sbtTemplate := sbtTemplate s'\<rparr>)
         (batchMintFromSession ch e recipients sid s)"
    unfolding T unfolding s' by (rule batchMintFromSession_active_flag)
  have g: "claimFromSession ch e sid s' =
       map_sum id (\<lambda>x. x\<lparr>sbtTemplate := sbtTemplate s'\<rparr>) (claimFromSession ch e sid s)"
    unfolding T unfolding s' by (rule claimFromSession_active_flag)
  have m1: "(\<not> isl (mintFromSession ch e to sid s')) =
       (isAuthorizedIssuer (issuerRegistry s') (msg_sender e)
        \<and> ses_issuer (sessions (sbtSession s') sid) = msg_sender e
        \<and> session_mint_checks ch e to sid s')"
    by (rule mintFromSession_succeeds_iff)
  have m2: "(\<not> isl (claimFromSession ch e sid s')) = session_mint_checks ch e (msg_sender e) sid s'"
    by (rule claimFromSession_succeeds_iff)
  have h1: "\<forall>s2. mintFromSession ch e to sid s' = Inr s2 \<longrightarrow>
          owners (sbtToken s2) (nextTokenId (sbtToken s')) = to
        \<and> sbtData (sbtToken s2) (nextTokenId (sbtToken s')) =
            minted_data e (msg_sender e)
              (templates (sbtTemplate s') (ses_templateId (sessions (sbtSession s') sid)))
              (ses_templateId (sessions (sbtSession s') sid)) sid"
    using mintFromSession_result[of ch e to sid s'] by blast
  have h2: "\<forall>s2 i. batchMintFromSession ch e recipients sid s' = Inr s2
          \<and> i < length recipients \<longrightarrow>
          owners (sbtToken s2) (nextTokenId (sbtToken s') + i) = recipients ! i
        \<and> sbtData (sbtToken s2) (nextTokenId (sbtToken s') + i) =
            minted_data e (msg_sender e)
              (templates (sbtTemplate s') (ses_templateId (sessions (sbtSession s') sid)))
              (ses_templateId (sessions (sbtSession s') sid)) sid"
  proof (intro allI impI)
    fix s2 i
    assume "batchMintFromSession ch e recipients sid s' = Inr s2 \<and> i < length recipients"
    then have bm: "batchMintFromSession ch e recipients sid s' = Inr s2"
      and i: "i < length recipients" by simp_all
    from batchMintLoop_result[OF batchMintFromSession_Inr(4)[OF bm]] i
    show "owners (sbtToken s2) (nextTokenId (sbtToken s') + i) = recipients ! i
        \<and> sbtData (sbtToken s2) (nextTokenId (sbtToken s') + i) =
            minted_data e (msg_sender e)
              (templates (sbtTemplate s') (ses_templateId (sessions (sbtSession s') sid)))
              (ses_templateId (sessions (sbtSession s') sid)) sid"
      by blast
  qed
  have h3: "\<forall>s2. claimFromSession ch e sid s' = Inr s2 \<longrightarrow>
          owners (sbtToken s2) (nextTokenId (sbtToken s')) = msg_sender e
        \<and> sbtData (sbtToken s2) (nextTokenId (sbtToken s')) =
            minted_data e (ses_issuer (sessions (sbtSession s') sid))
              (templates (sbtTemplate s') (ses_templateId (sessions (sbtSession s') sid)))
              (ses_templateId (sessions (sbtSession s') sid)) sid
        \<and> sbt_name (sbtData (sbtToken s2) (nextTokenId (sbtToken s'))) =
            tpl_name (templates (sbtTemplate s') (ses_templateId (sessions (sbtSession s') sid)))
        \<and> sbt_description (sbtData (sbtToken s2) (nextTokenId (sbtToken s'))) =
            tpl_description
              (templates (sbtTemplate s') (ses_templateId (sessions (sbtSession s') sid)))"
    using claimFromSession_result(1,2)[of ch e sid s'] by (simp add: minted_data_def)
  from a b c f g m1 m2 h1 h2 h3 show ?thesis by blast
qed

theorem session_mint_after_deactivateTemplate_witness:
  "\<not> isl (exec example_chain (call_by 1 7) (DeactivateTemplate 1) example_session_open)
   \<and> \<not> isTemplateActive (sbtTemplate example_deactivated) 1
   \<and> ses_templateId (sessions (sbtSession example_deactivated) 1) = 1
   \<and> isl (mintFromTemplate example_chain (call_by 1 8) 7 1 example_deactivated)
   \<and> \<not> isl (claimFromSession example_chain (call_by 7 8) 1 example_deactivated)
   \<and> \<not> isl (mintFromSession example_chain (call_by 1 8) 7 1 example_deactivated)
   \<and> \<not> isl (batchMintFromSession example_chain (call_by 1 8) [7, 8] 1 example_deactivated)
   \<and> owners (sbtToken (transact example_chain (call_by 7 8) (ClaimFromSession 1)
         example_deactivated)) 1 = 7
   \<and> sbt_name (sbtData (sbtToken (transact example_chain (call_by 7 8) (ClaimFromSession 1)
         example_deactivated)) 1) = ''Workshop''
   \<and> owners (sbtToken (transact example_chain (call_by 1 8) (MintFromSession 7 1)
         example_deactivated)) 1 = 7
   \<and> sbt_name (sbtData (sbtToken (transact example_chain (call_by 1 8) (MintFromSession 7 1)
         example_deactivated)) 1) = ''Workshop''
   \<and> sbt_description (sbtData (sbtToken (transact example_chain (call_by 1 8)
         (MintFromSession 7 1) example_deactivated)) 1) = ''Attended''
   \<and> owners (sbtToken (transact example_chain (call_by 1 8) (BatchMintFromSession [7, 8] 1)
         example_deactivated)) 1 = 7
   \<and> owners (sbtToken (transact example_chain (call_by 1 8) (BatchMintFromSession [7, 8] 1)
         example_deactivated)) 2 = 8
   \<and> sbt_name (sbtData (sbtToken (transact example_chain (call_by 1 8)
         (BatchMintFromSession [7, 8] 1) example_deactivated)) 1) = ''Workshop''
   \<and> sbt_name (sbtData (sbtToken (transact example_chain (call_by 1 8)
         (BatchMintFromSession [7, 8] 1) example_deactivated)) 2) = ''Workshop''"
proof -
  have d: "\<not> isl (exec example_chain (call_by 1 7) (DeactivateTemplate 1) example_session_open)"
    by (simp add: example_session_open_def run_defs deactivateTemplate_def)
  then obtain s' where s': "exec example_chain (call_by 1 7) (DeactivateTemplate 1)
      example_session_open = Inr s'"
    by (cases "exec example_chain (call_by 1 7) (DeactivateTemplate 1) example_session_open") auto
  then have ed: "example_deactivated = s'"
    by (simp add: example_deactivated_def transact_def)
  note th = session_mint_after_deactivateTemplate[OF s']
  have ok: "\<not> isl (claimFromSession example_chain (call_by 7 8) 1 example_session_open)"
    "\<not> isl (mintFromSession example_chain (call_by 1 8) 7 1 example_session_open)"
    "\<not> isl (batchMintFromSession example_chain (call_by 1 8) [7, 8] 1 example_session_open)"
    by (simp_all add: example_session_open_def run_defs batch_defs)
  have ok': "\<not> isl (claimFromSession example_chain (call_by 7 8) 1 s')"
    "\<not> isl (mintFromSession example_chain (call_by 1 8) 7 1 s')"
    "\<not> isl (batchMintFromSession example_chain (call_by 1 8) [7, 8] 1 s')"
    using ok th[of "call_by 7 8" 7 1 "[]"] th[of "call_by 1 8" 7 1 "[7, 8]"]
    by (simp_all add: isl_map_sum)
  obtain c2 where c2: "claimFromSession example_chain (call_by 7 8) 1 s' = Inr c2"
    using ok'(1) by (cases "claimFromSession example_chain (call_by 7 8) 1 s'") auto
  obtain m2 where m2: "mintFromSession example_chain (call_by 1 8) 7 1 s' = Inr m2"
    using ok'(2) by (cases "mintFromSession example_chain (call_by 1 8) 7 1 s'") auto
  obtain b2 where b2: "batchMintFromSession example_chain (call_by 1 8) [7, 8] 1 s' = Inr b2"
    using ok'(3) by (cases "batchMintFromSession example_chain (call_by 1 8) [7, 8] 1 s'") auto
  have tc: "transact example_chain (call_by 7 8) (ClaimFromSession 1) example_deactivated = c2"
    and tm: "transact example_chain (call_by 1 8) (MintFromSession 7 1) example_deactivated = m2"
    and tb: "transact example_chain (call_by 1 8) (BatchMintFromSession [7, 8] 1)
        example_deactivated = b2"
    using c2 m2 b2 by (simp_all add: ed transact_def)
  have na: "\<not> isTemplateActive (sbtTemplate s') 1"
    and nm: "isl (mintFromTemplate example_chain (call_by 1 8) 7 1 s')"
    using th[of "call_by 1 8" 7 1 "[]"] by simp_all
  have vals: "nextTokenId (sbtToken s') = 1"
    "ses_templateId (sessions (sbtSession s') 1) = 1"
    "tpl_name (templates (sbtTemplate s') 1) = ''Workshop''"
    "tpl_description (templates (sbtTemplate s') 1) = ''Attended''"
    unfolding ed[symmetric]
    by (simp_all add: example_deactivated_def example_session_open_def run_defs
          deactivateTemplate_def)
  from th[of "call_by 7 8" 7 1 "[]"] c2
  have "owners (sbtToken c2) (nextTokenId (sbtToken s')) = msg_sender (call_by 7 8)
      \<and> sbt_name (sbtData (sbtToken c2) (nextTokenId (sbtToken s'))) =
          tpl_name (templates (sbtTemplate s') (ses_templateId (sessions (sbtSession s') 1)))"
    by blast
  then have rc: "owners (sbtToken c2) 1 = 7" "sbt_name (sbtData (sbtToken c2) 1) = ''Workshop''"
    using vals by (simp_all add: call_by_def)
  from th[of "call_by 1 8" 7 1 "[7, 8]"] m2
  have "owners (sbtToken m2) (nextTokenId (sbtToken s')) = 7
      \<and> sbtData (sbtToken m2) (nextTokenId (sbtToken s')) =
            minted_data (call_by 1 8) (msg_sender (call_by 1 8))
              (templates (sbtTemplate s') (ses_templateId (sessions (sbtSession s') 1)))
              (ses_templateId (sessions (sbtSession s') 1)) 1"
    by blast
  then have rm: "owners (sbtToken m2) 1 = 7" "sbt_name (sbtData (sbtToken m2) 1) = ''Workshop''"
    "sbt_description (sbtData (sbtToken m2) 1) = ''Attended''"
    using vals by (simp_all add: minted_data_def)
  have bi: "owners (sbtToken b2) (nextTokenId (sbtToken s') + i) = [7, 8] ! i
      \<and> sbtData (sbtToken b2) (nextTokenId (sbtToken s') + i) =
            minted_data (call_by 1 8) (msg_sender (call_by 1 8))
              (templates (sbtTemplate s') (ses_templateId (sessions (sbtSession s') 1)))
              (ses_templateId (sessions (sbtSession s') 1)) 1"
    if "i < length [7, 8 :: nat]" for i
    using th[of "call_by 1 8" 7 1 "[7, 8]"] b2 that by blast
  from bi[of 0] have rb0: "owners (sbtToken b2) 1 = 7"
    "sbt_name (sbtData (sbtToken b2) 1) = ''Workshop''"
    using vals by (simp_all add: minted_data_def)
  from bi[of 1] have rb1: "owners (sbtToken b2) 2 = 8"
    "sbt_name (sbtData (sbtToken b2) 2) = ''Workshop''"
    using vals by (simp_all add: minted_data_def numeral_2_eq_2)
  from d na nm ok' vals(2) rc rm rb0 rb1 show ?thesis
    unfolding tc tm tb unfolding ed[symmetric] by blast
qed

subsection \<open>Revocation\<close>

text \<open>
  C5, as the claim states it, fails in its last part: after a revocation a mint of the
  same session to the same owner need not succeed. In a session with one slot, account 7
  claims and the issuer revokes the token; both markers of account 7 are cleared, but
  \<open>currentMints\<close> is still 1 of 1, so every session mint path rejects account 7 with
  "session is not claimable".
\<close>

theorem revoke_full_session_counterexample:
  "sbt_revoked (sbtData (sbtToken example_single_slot_revoked) 1)
   \<and> owners (sbtToken example_single_slot_revoked) 1 = 7
   \<and> sbt_sessionId (sbtData (sbtToken example_single_slot_revoked) 1) = 1
   \<and> \<not> hasTokenFromSession (sbtToken example_single_slot_revoked) 7 1
   \<and> \<not> hasTokenFromTemplate (sbtToken example_single_slot_revoked) 7 1
   \<and> ses_currentMints (sessions (sbtSession example_single_slot_revoked) 1) = 1
   \<and> ses_maxMints (sessions (sbtSession example_single_slot_revoked) 1) = 1
   \<and> claimFromSession example_chain (call_by 7 10) 1 example_single_slot_revoked
       = Inl Tok_SessionNotClaimable
   \<and> mintFromSession example_chain (call_by 1 10) 7 1 example_single_slot_revoked
       = Inl Tok_SessionNotClaimable
   \<and> batchMintFromSession example_chain (call_by 1 10) [7] 1 example_single_slot_revoked
       = Inl Tok_SessionNotClaimable"
  by (simp add: example_single_slot_revoked_def run_defs batch_defs)

lemma revokeSBT_result:
  assumes "revokeSBT sender tokenId t = Inr t'"
  shows "sender = sbt_issuer (sbtData t tokenId) \<or> sender = tok_owner t"
    and "owners t tokenId \<noteq> 0"
    and "\<not> sbt_revoked (sbtData t tokenId)"
    and "\<not> tok_paused t"
    and "sbt_revoked (sbtData t' tokenId)"
    and "\<not> hasTokenFromTemplate t' (owners t tokenId) (sbt_templateId (sbtData t tokenId))"
    and "sbt_sessionId (sbtData t tokenId) \<noteq> 0 \<Longrightarrow>
           \<not> hasTokenFromSession t' (owners t tokenId) (sbt_sessionId (sbtData t tokenId))"
    and "owners t' = owners t" and "nextTokenId t' = nextTokenId t"
    and "tok_paused t' = tok_paused t"
  using assms
  by (auto simp: revokeSBT_def Let_def split: if_splits)

lemma session_mint_checks_split:
  "session_mint_checks ch e to sid s =
     (\<not> tok_paused (sbtToken s) \<and> \<not> hasTokenFromSession (sbtToken s) to sid
      \<and> session_has_room ch e to sid s)"
  by (auto simp: session_mint_checks_def session_has_room_def)

text \<open>
  C5, amended. \<open>revokeSBT\<close> succeeds only when the caller is the token's recorded issuer
  or the token contract's owner, and the token exists and is not yet revoked. On success
  the token is marked revoked, the (owner, template) marker is cleared, the (owner,
  session) marker is cleared when the token carries a session id, and the session manager
  (so every \<open>currentMints\<close>) is untouched. The uniqueness checks then no longer stand in
  the way: a later mint of the same template or session to that owner succeeds exactly
  when its other preconditions hold; for a session mint that includes the session still
  being claimable, since the revocation gives no capacity back.
\<close>

theorem revokeSBT_restores_eligibility:
  assumes r: "exec ch e (RevokeSBT tokenId) s = Inr s'"
    and h: "holder = owners (sbtToken s) tokenId"
    and k: "templateId = sbt_templateId (sbtData (sbtToken s) tokenId)"
    and i: "sessionId = sbt_sessionId (sbtData (sbtToken s) tokenId)"
  shows "(msg_sender e = sbt_issuer (sbtData (sbtToken s) tokenId)
            \<or> msg_sender e = tok_owner (sbtToken s))
   \<and> holder \<noteq> 0
   \<and> \<not> sbt_revoked (sbtData (sbtToken s) tokenId)
   \<and> sbt_revoked (sbtData (sbtToken s') tokenId)
   \<and> \<not> hasTokenFromTemplate (sbtToken s') holder templateId
   \<and> (sessionId \<noteq> 0 \<longrightarrow> \<not> hasTokenFromSession (sbtToken s') holder sessionId)
   \<and> sbtSession s' = sbtSession s
   \<and> (\<not> isl (mintFromTemplate ch e' holder templateId s')) =
       (isAuthorizedIssuer (issuerRegistry s') (msg_sender e')
        \<and> isTemplateActive (sbtTemplate s') templateId
        \<and> tpl_issuer (templates (sbtTemplate s') templateId) = msg_sender e'
        \<and> token_slot_free ch (msg_sender e') holder (sbtToken s'))
   \<and> (sessionId \<noteq> 0 \<longrightarrow>
        (\<not> isl (mintFromSession ch e' holder sessionId s')) =
          (isAuthorizedIssuer (issuerRegistry s') (msg_sender e')
           \<and> ses_issuer (sessions (sbtSession s') sessionId) = msg_sender e'
           \<and> session_has_room ch e' holder sessionId s'))
   \<and> (sessionId \<noteq> 0 \<and> msg_sender e' = holder \<longrightarrow>
        (\<not> isl (claimFromSession ch e' sessionId s')) =
          session_has_room ch e' holder sessionId s')"
proof -
  from r obtain t' where t': "revokeSBT (msg_sender e) tokenId (sbtToken s) = Inr t'"
    and s': "s' = s\<lparr>sbtToken := t'\<rparr>"
    by (auto simp: in_token_def split: sum.splits)
  note f = revokeSBT_result[OF t']
  have tok: "sbtToken s' = t'" and ses: "sbtSession s' = sbtSession s"
    by (simp_all add: s')
  have np: "\<not> tok_paused (sbtToken s')" using f(4,10) by (simp add: tok)
  have mt: "\<not> hasTokenFromTemplate (sbtToken s') holder templateId"
    using f(6) by (simp add: tok h k)
  have ms: "sessionId \<noteq> 0 \<Longrightarrow> \<not> hasTokenFromSession (sbtToken s') holder sessionId"
    using f(7) by (simp add: tok h i)
  have a: "(\<not> isl (mintFromTemplate ch e' holder templateId s')) =
       (isAuthorizedIssuer (issuerRegistry s') (msg_sender e')
        \<and> isTemplateActive (sbtTemplate s') templateId
        \<and> tpl_issuer (templates (sbtTemplate s') templateId) = msg_sender e'
        \<and> token_slot_free ch (msg_sender e') holder (sbtToken s'))"
    using np mt by (auto simp: mintFromTemplate_succeeds_iff template_mint_checks_def)
  have b: "sessionId \<noteq> 0 \<Longrightarrow>
        (\<not> isl (mintFromSession ch e' holder sessionId s')) =
          (isAuthorizedIssuer (issuerRegistry s') (msg_sender e')
           \<and> ses_issuer (sessions (sbtSession s') sessionId) = msg_sender e'
           \<and> session_has_room ch e' holder sessionId s')"
    using np ms by (auto simp: mintFromSession_succeeds_iff session_mint_checks_split)
  have c: "sessionId \<noteq> 0 \<and> msg_sender e' = holder \<Longrightarrow>
        (\<not> isl (claimFromSession ch e' sessionId s')) =
          session_has_room ch e' holder sessionId s'"
    using np ms by (auto simp: claimFromSession_succeeds_iff session_mint_checks_split)
  from f(1,2,3,5) mt ms ses a b c show ?thesis
    by (simp add: tok h)
qed

theorem revokeSBT_restores_eligibility_witness:
  "\<not> isl (exec example_chain (call_by 1 9) (RevokeSBT 1) example_one_claimed)
   \<and> owners (sbtToken example_one_claimed) 1 = 7
   \<and> sbt_templateId (sbtData (sbtToken example_one_claimed) 1) = 1
   \<and> sbt_sessionId (sbtData (sbtToken example_one_claimed) 1) = 1
   \<and> sbt_revoked (sbtData (sbtToken example_revoked) 1)
   \<and> \<not> hasTokenFromTemplate (sbtToken example_revoked) 7 1
   \<and> \<not> hasTokenFromSession (sbtToken example_revoked) 7 1
   \<and> ses_currentMints (sessions (sbtSession example_one_claimed) 1) = 1
   \<and> ses_currentMints (sessions (sbtSession example_revoked) 1) = 1
   \<and> \<not> isl (mintFromTemplate example_chain (call_by 1 10) 7 1 example_revoked)
   \<and> \<not> isl (mintFromSession example_chain (call_by 1 10) 7 1 example_revoked)
   \<and> \<not> isl (claimFromSession example_chain (call_by 7 10) 1 example_revoked)"
proof -
  have ok: "\<not> isl (exec example_chain (call_by 1 9) (RevokeSBT 1) example_one_claimed)"
    by (simp add: example_one_claimed_def example_session_open_def run_defs)
  then obtain s' where s': "exec example_chain (call_by 1 9) (RevokeSBT 1) example_one_claimed = Inr s'"
    by (cases "exec example_chain (call_by 1 9) (RevokeSBT 1) example_one_claimed") auto
  then have er: "example_revoked = s'"
    by (simp add: example_revoked_def transact_def)
  have h: "7 = owners (sbtToken example_one_claimed) 1"
    and k: "1 = sbt_templateId (sbtData (sbtToken example_one_claimed) 1)"
    and i: "1 = sbt_sessionId (sbtData (sbtToken example_one_claimed) 1)"
    and cur: "ses_currentMints (sessions (sbtSession example_one_claimed) 1) = 1"
    by (simp_all add: example_one_claimed_def example_session_open_def run_defs)
  note th = revokeSBT_restores_eligibility[OF s' h k i]
  have pre1: "isAuthorizedIssuer (issuerRegistry example_revoked) (msg_sender (call_by 1 10))"
    "isTemplateActive (sbtTemplate example_revoked) 1"
    "tpl_issuer (templates (sbtTemplate example_revoked) 1) = msg_sender (call_by 1 10)"
    "token_slot_free example_chain (msg_sender (call_by 1 10)) 7 (sbtToken example_revoked)"
    "ses_issuer (sessions (sbtSession example_revoked) 1) = msg_sender (call_by 1 10)"
    "session_has_room example_chain (call_by 1 10) 7 1 example_revoked"
    "session_has_room example_chain (call_by 7 10) 7 1 example_revoked"
    "msg_sender (call_by 7 10) = 7"
    by (simp_all add: example_revoked_def example_one_claimed_def example_session_open_def
          run_defs session_has_room_def token_slot_free_def)
  from th[of "call_by 1 10"] pre1 have m:
    "\<not> isl (mintFromTemplate example_chain (call_by 1 10) 7 1 s')"
    "\<not> isl (mintFromSession example_chain (call_by 1 10) 7 1 s')"
    by (simp_all add: er)
  from th[of "call_by 7 10"] pre1 have c:
    "\<not> isl (claimFromSession example_chain (call_by 7 10) 1 s')"
    by (simp add: er)
  from th[of "call_by 7 10"] have eff:
    "sbt_revoked (sbtData (sbtToken s') 1)"
    "\<not> hasTokenFromTemplate (sbtToken s') 7 1"
    "\<not> hasTokenFromSession (sbtToken s') 7 1"
    "sbtSession s' = sbtSession example_one_claimed"
    by simp_all
  from ok h k i cur m c eff show ?thesis by (simp add: er)
qed

end
